theory Spec2Isabelle
  imports Complex_Main "HOL-Library.Multiset"
begin

section \<open>The JavaScript values the program computes with\<close>

text \<open>
  The expense tracker is TypeScript: server actions over a relational store
  (\<^verbatim>\<open>src/unnamed/part_000\<close>, schema in \<^verbatim>\<open>src/unnamed/part_001\<close>), the receipt
  scanner (\<^verbatim>\<open>src/app/actions/scan-receipt.ts\<close>) and the reports page
  (\<^verbatim>\<open>src/app/(dashboard)/records/page.tsx\<close>). Strings are modelled as \<^typ>\<open>string\<close>
  (ASCII; the non-ASCII white space of ECMAScript is outside the model), a \<^verbatim>\<open>Date\<close> as
  its time value in milliseconds (\<^typ>\<open>int\<close>), and a \<^verbatim>\<open>number\<close> as an IEEE 754
  binary64 value: not-a-number, the two infinities, or a finite value held as the
  rational it denotes (the sign of zero is not kept).
\<close>

datatype jsnum = NaN | Fin rat | PosInf | NegInf

subsection \<open>Rounding to binary64\<close>

function log2floor :: "int \<Rightarrow> int" where
  "log2floor n = (if n < 2 then 0 else 1 + log2floor (n div 2))"
  by pat_completeness auto
termination
  by (relation "measure nat") auto

definition pow2 :: "int \<Rightarrow> rat" where
  "pow2 e = (if 0 \<le> e then 2 ^ nat e else 1 / 2 ^ nat (- e))"

definition pow10 :: "int \<Rightarrow> rat" where
  "pow10 e = (if 0 \<le> e then 10 ^ nat e else 1 / 10 ^ nat (- e))"

text \<open>\<open>ilog2 x\<close> is the binary exponent of a positive rational: \<open>2 ^ ilog2 x \<le> x < 2 ^ (ilog2 x + 1)\<close>.\<close>

definition ilog2 :: "rat \<Rightarrow> int" where
  "ilog2 x =
     (let (p, q) = quotient_of x;
          g = log2floor p - log2floor q
      in if pow2 g \<le> x then g else g - 1)"

definition roundTiesToEven :: "rat \<Rightarrow> int" where
  "roundTiesToEven x =
     (let f = \<lfloor>x\<rfloor>; d = x - of_int f
      in if d < 1 / 2 then f
         else if 1 / 2 < d then f + 1
         else if even f then f else f + 1)"

text \<open>
  The number value of a real: the nearest binary64 value, ties to the even
  significand; 53 bits of significand, least exponent \<open>-1022\<close> (subnormals below it),
  overflow to infinity when the rounded value reaches \<open>2 ^ 1024\<close> (the significand
  rounds up to \<open>2 ^ 53 = 9007199254740992\<close> at exponent 1023, or the exponent is beyond).
\<close>

definition toDouble :: "rat \<Rightarrow> jsnum" where
  "toDouble v =
     (if v = 0 then Fin 0
      else
        let a = \<bar>v\<bar>;
            e = max (ilog2 a) (- 1022);
            q = pow2 (e - 52);
            m = roundTiesToEven (a / q)
        in if 1024 \<le> e \<or> (e = 1023 \<and> m = 9007199254740992) then (if 0 < v then PosInf else NegInf)
           else Fin (if 0 < v then of_int m * q else - (of_int m * q)))"

text \<open>\<^verbatim>\<open>a + b\<close> on numbers.\<close>

fun jsadd :: "jsnum \<Rightarrow> jsnum \<Rightarrow> jsnum" where
  "jsadd NaN _ = NaN"
| "jsadd _ NaN = NaN"
| "jsadd PosInf NegInf = NaN"
| "jsadd NegInf PosInf = NaN"
| "jsadd PosInf _ = PosInf"
| "jsadd _ PosInf = PosInf"
| "jsadd NegInf _ = NegInf"
| "jsadd _ NegInf = NegInf"
| "jsadd (Fin a) (Fin b) = toDouble (a + b)"

text \<open>\<^verbatim>\<open>isNaN(x)\<close> and \<^verbatim>\<open>x <= 0\<close>; a comparison with NaN is false.\<close>

fun isNaN :: "jsnum \<Rightarrow> bool" where
  "isNaN NaN = True"
| "isNaN _ = False"

fun js_le0 :: "jsnum \<Rightarrow> bool" where
  "js_le0 NaN = False"
| "js_le0 (Fin r) = (r \<le> 0)"
| "js_le0 PosInf = False"
| "js_le0 NegInf = True"

subsection \<open>Strings\<close>

definition isWhiteSpace :: "char \<Rightarrow> bool" where
  "isWhiteSpace c = (of_char c \<in> {9, 10, 11, 12, 13, 32 :: nat})"

definition trimStart :: "string \<Rightarrow> string" where
  "trimStart s = dropWhile isWhiteSpace s"

text \<open>\<^verbatim>\<open>String.prototype.trim\<close>.\<close>

definition trim :: "string \<Rightarrow> string" where
  "trim s = rev (dropWhile isWhiteSpace (rev (dropWhile isWhiteSpace s)))"

definition startsWith :: "string \<Rightarrow> string \<Rightarrow> bool" where
  "startsWith s p = (take (length p) s = p)"


subsection \<open>parseFloat\<close>

definition isDigit :: "char \<Rightarrow> bool" where
  "isDigit c = (48 \<le> (of_char c :: nat) \<and> (of_char c :: nat) \<le> 57)"

definition digitsValue :: "string \<Rightarrow> int" where
  "digitsValue ds = foldl (\<lambda>a c. 10 * a + (of_char c - 48)) 0 ds"

text \<open>
  The exponent part at the head of the rest of a literal: \<^verbatim>\<open>e\<close> or \<^verbatim>\<open>E\<close>, an
  optional sign and at least one digit. Where no exponent part matches, the literal
  ends before it and the exponent is 0.
\<close>

definition exponentPart :: "string \<Rightarrow> int" where
  "exponentPart s =
     (case s of
        [] \<Rightarrow> 0
      | c # r \<Rightarrow>
          if c = CHR ''e'' \<or> c = CHR ''E'' then
            (case r of
               [] \<Rightarrow> 0
             | d # r' \<Rightarrow>
                 if d = CHR ''+'' \<and> takeWhile isDigit r' \<noteq> [] then digitsValue (takeWhile isDigit r')
                 else if d = CHR ''-'' \<and> takeWhile isDigit r' \<noteq> [] then - digitsValue (takeWhile isDigit r')
                 else if isDigit d then digitsValue (takeWhile isDigit r)
                 else 0)
          else 0)"

text \<open>
  The longest prefix that is a \<^verbatim>\<open>StrUnsignedDecimalLiteral\<close>: \<^verbatim>\<open>Infinity\<close>, or
  digits with an optional fraction and exponent, or a fraction starting with the dot.
  \<open>None\<close> when no prefix is a literal; otherwise the real the prefix denotes
  (\<open>Inr\<close>) or infinity (\<open>Inl ()\<close>).
\<close>

definition strUnsignedDecimalLiteral :: "string \<Rightarrow> (unit + rat) option" where
  "strUnsignedDecimalLiteral s =
     (if startsWith s ''Infinity'' then Some (Inl ())
      else
        let ip = takeWhile isDigit s; r1 = dropWhile isDigit s
        in case r1 of
             [] \<Rightarrow> if ip = [] then None else Some (Inr (of_int (digitsValue ip)))
           | c # r2 \<Rightarrow>
               if c = CHR ''.'' then
                 (let fp = takeWhile isDigit r2; r3 = dropWhile isDigit r2
                  in if ip = [] \<and> fp = [] then None
                     else Some (Inr ((of_int (digitsValue ip) + of_int (digitsValue fp) / 10 ^ length fp)
                                      * pow10 (exponentPart r3))))
               else if ip = [] then None
               else Some (Inr (of_int (digitsValue ip) * pow10 (exponentPart r1))))"

fun negate :: "jsnum \<Rightarrow> jsnum" where
  "negate NaN = NaN"
| "negate (Fin r) = Fin (- r)"
| "negate PosInf = NegInf"
| "negate NegInf = PosInf"

definition literalValue :: "(unit + rat) option \<Rightarrow> jsnum" where
  "literalValue l = (case l of None \<Rightarrow> NaN | Some (Inl _) \<Rightarrow> PosInf | Some (Inr v) \<Rightarrow> toDouble v)"

text \<open>
  \<^verbatim>\<open>parseFloat\<close>: leading white space is dropped, then the longest prefix that is a
  \<^verbatim>\<open>StrDecimalLiteral\<close> (an optional sign and an unsigned literal) is converted;
  whatever follows is ignored; NaN when there is no such prefix.
\<close>

definition parseFloat :: "string \<Rightarrow> jsnum" where
  "parseFloat str =
     (case trimStart str of
        [] \<Rightarrow> NaN
      | c # r \<Rightarrow>
          if c = CHR ''+'' then literalValue (strUnsignedDecimalLiteral r)
          else if c = CHR ''-'' then negate (literalValue (strUnsignedDecimalLiteral r))
          else literalValue (strUnsignedDecimalLiteral (c # r)))"

section \<open>Dates\<close>

text \<open>
  A \<^verbatim>\<open>Date\<close> is its time value, milliseconds since 1970-01-01T00:00. Local time is
  taken to be UTC (no offset, no daylight saving), so that a calendar day is a block of
  \<open>86400000\<close> ms; invalid dates and the range limit of time values are outside the
  model. A month is named by its index \<open>12 * year + month\<close>, the month counted from 0
  as \<^verbatim>\<open>getMonth\<close> does.
\<close>

definition msPerDay :: int where
  "msPerDay = 86400000"

definition dayOf :: "int \<Rightarrow> int" where
  "dayOf t = t div msPerDay"

text \<open>\<^verbatim>\<open>d.setHours(0, 0, 0, 0)\<close> and \<^verbatim>\<open>d.setHours(23, 59, 59, 999)\<close>.\<close>

definition setHours_0_0_0_0 :: "int \<Rightarrow> int" where
  "setHours_0_0_0_0 t = dayOf t * msPerDay"

definition setHours_23_59_59_999 :: "int \<Rightarrow> int" where
  "setHours_23_59_59_999 t = dayOf t * msPerDay + 86399999"

text \<open>
  The day number of a civil date of the proleptic Gregorian calendar (month from 1 to
  12), counted from 1970-01-01: years start in March, 146097 days make 400 years.
\<close>

definition daysFromCivil :: "int \<Rightarrow> int \<Rightarrow> int \<Rightarrow> int" where
  "daysFromCivil y m d =
     (let y' = (if m \<le> 2 then y - 1 else y);
          era = y' div 400;
          yoe = y' mod 400;
          mp = (if 2 < m then m - 3 else m + 9);
          doy = (153 * mp + 2) div 5 + d - 1;
          doe = yoe * 365 + yoe div 4 - yoe div 100 + doy
      in era * 146097 + doe - 719468)"

text \<open>The day number of the first day of the month with index \<open>k\<close>.\<close>

definition monthStart :: "int \<Rightarrow> int" where
  "monthStart k = daysFromCivil (k div 12) (k mod 12 + 1) 1"

text \<open>
  The month a day lies in is found by walking up from a month that starts no later
  than the day: a month has at least 28 and at most 31 days, and January 1970 is the
  month \<open>23640\<close>. The walk goes on while the next month starts no later than the
  day; that the next month starts after this one always holds and makes the end of
  the walk evident.
\<close>

function monthSearch :: "int \<Rightarrow> int \<Rightarrow> int" where
  "monthSearch d k = (if monthStart (k + 1) \<le> d \<and> monthStart k < monthStart (k + 1)
                      then monthSearch d (k + 1) else k)"
  by pat_completeness auto
termination
  by (relation "measure (\<lambda>(d, k). nat (d - monthStart k))") auto

definition monthIndex :: "int \<Rightarrow> int" where
  "monthIndex d = monthSearch d (23640 + (if 0 \<le> d then d div 31 else d div 28))"

definition getFullYear :: "int \<Rightarrow> int" where
  "getFullYear t = monthIndex (dayOf t) div 12"

definition getMonth :: "int \<Rightarrow> int" where
  "getMonth t = monthIndex (dayOf t) mod 12"

definition getDate :: "int \<Rightarrow> int" where
  "getDate t = dayOf t - monthStart (monthIndex (dayOf t)) + 1"

text \<open>
  \<^verbatim>\<open>new Date(year, monthIndex, day)\<close>: local midnight of that day; months and days
  out of range carry over, and a year from 0 to 99 means 1900 + year.
\<close>

definition newDate :: "int \<Rightarrow> int \<Rightarrow> int \<Rightarrow> int" where
  "newDate y m d =
     (let yr = (if 0 \<le> y \<and> y \<le> 99 then 1900 + y else y)
      in (monthStart (12 * yr + m) + (d - 1)) * msPerDay)"

section \<open>The persistence gateway\<close>

text \<open>
  The store holds the two tables of the migration \<^verbatim>\<open>src/unnamed/part_001\<close>. A call
  of a collaborator (the authentication provider, the ORM, the cache invalidation hook,
  the model API) either returns or throws; every value thrown is an \<^verbatim>\<open>Error\<close> object
  with a message, as those libraries' are. An effectful computation takes the store and
  returns the store it leaves, with the value returned (\<open>Inr\<close>) or the exception thrown
  (\<open>Inl\<close>). A statement that fails leaves the store as it was.
\<close>

datatype exn = Error string

fun message :: "exn \<Rightarrow> string" where
  "message (Error m) = m"

record user_row =
  u_id :: string
  u_email :: string
  u_name :: "string option"
  u_currency :: string
  u_createdAt :: int
  u_updatedAt :: int

record tx_row =
  tx_id :: string
  tx_name :: string
  tx_amount :: rat
  tx_category :: string
  tx_date :: int
  tx_createdAt :: int
  tx_updatedAt :: int
  tx_userId :: string

record db =
  users :: "user_row list"
  transactions :: "tx_row list"

type_synonym 'a io = "db \<Rightarrow> (exn + 'a) \<times> db"

definition io_ret :: "'a \<Rightarrow> 'a io" where
  "io_ret x = (\<lambda>s. (Inr x, s))"

definition io_throw :: "exn \<Rightarrow> 'a io" where
  "io_throw e = (\<lambda>s. (Inl e, s))"

text \<open>The outcome of a call that does not touch the store.\<close>

definition io_lift :: "exn + 'a \<Rightarrow> 'a io" where
  "io_lift r = (\<lambda>s. (r, s))"

text \<open>Sequencing (\<^verbatim>\<open>await\<close>): an exception skips the rest.\<close>

definition io_bind :: "'a io \<Rightarrow> ('a \<Rightarrow> 'b io) \<Rightarrow> 'b io" where
  "io_bind m f = (\<lambda>s. case m s of (Inl e, s') \<Rightarrow> (Inl e, s') | (Inr x, s') \<Rightarrow> f x s')"

text \<open>\<^verbatim>\<open>try { m } catch (error) { h }\<close>: the handler runs in the store the body left.\<close>

definition io_try :: "'a io \<Rightarrow> (exn \<Rightarrow> 'a io) \<Rightarrow> 'a io" where
  "io_try m h = (\<lambda>s. case m s of (Inl e, s') \<Rightarrow> h e s' | (Inr x, s') \<Rightarrow> (Inr x, s'))"

text \<open>
  What a request brings with it: the identity \<^verbatim>\<open>auth()\<close> resolves (or its failure),
  the profile \<^verbatim>\<open>currentUser()\<close> returns, the clock, the identifier generated for a
  new row, the outcome of \<^verbatim>\<open>revalidatePath\<close>, and the decimal the ORM writes for a
  finite number.
\<close>

record clerk_user =
  emailAddresses :: "string list"
  fullName :: "string option"

record env =
  auth :: "exn + string option"
  currentUser :: "exn + clerk_user option"
  clock :: int
  freshId :: string
  revalidatePath :: "string \<Rightarrow> exn option"
  decimalOfNumber :: "rat \<Rightarrow> rat"

text \<open>\<^verbatim>\<open>CREATE TYPE "Category" AS ENUM (...)\<close>.\<close>

definition categoryEnum :: "string list" where
  "categoryEnum = [''Food'', ''Groceries'', ''Transportation'', ''Internet'', ''Health'', ''Sport'',
     ''Shopping'', ''Entertainment'', ''BadHabits'', ''Other'']"

text \<open>
  A column of type \<^verbatim>\<open>DECIMAL(65,30)\<close>: the value is rounded to 30 fractional digits
  (half away from zero) and must leave at most 35 integral digits.
\<close>

definition decimal_65_30 :: "rat \<Rightarrow> exn + rat" where
  "decimal_65_30 v =
     (let n = \<lfloor>\<bar>v\<bar> * 10 ^ 30 + 1 / 2\<rfloor>;
          r = (if 0 \<le> v then of_int n else - of_int n) / 10 ^ 30
      in if 10 ^ 35 \<le> \<bar>r\<bar> then Inl (Error ''numeric field overflow'') else Inr r)"

definition amountColumn :: "env \<Rightarrow> jsnum \<Rightarrow> exn + rat" where
  "amountColumn env a =
     (case a of
        Fin r \<Rightarrow> decimal_65_30 (decimalOfNumber env r)
      | _ \<Rightarrow> Inl (Error ''Invalid value for argument amount: not a finite number''))"

text \<open>
  \<^verbatim>\<open>prisma.user.upsert\<close> by primary key; the e-mail address is unique in the table.
\<close>

definition user_upsert :: "env \<Rightarrow> string \<Rightarrow> string \<Rightarrow> string option \<Rightarrow> user_row io" where
  "user_upsert env uid email nm = (\<lambda>s.
     if list_ex (\<lambda>u. u_id u \<noteq> uid \<and> u_email u = email) (users s)
     then (Inl (Error ''Unique constraint failed on the fields: (email)''), s)
     else
       case find (\<lambda>u. u_id u = uid) (users s) of
         Some u \<Rightarrow>
           let u' = u\<lparr>u_email := email, u_name := nm, u_updatedAt := clock env\<rparr>
           in (Inr u', s\<lparr>users := map (\<lambda>x. if u_id x = uid then u' else x) (users s)\<rparr>)
       | None \<Rightarrow>
           let u' = \<lparr>u_id = uid, u_email = email, u_name = nm, u_currency = ''USD'',
                     u_createdAt = clock env, u_updatedAt = clock env\<rparr>
           in (Inr u', s\<lparr>users := users s @ [u']\<rparr>))"

text \<open>
  \<^verbatim>\<open>prisma.transaction.create\<close>: the category must be a value of the enumeration, the
  amount must fit its column, the owner must exist (foreign key) and the identifier
  must be new (primary key).
\<close>

definition transaction_create ::
  "env \<Rightarrow> string \<Rightarrow> jsnum \<Rightarrow> string \<Rightarrow> int \<Rightarrow> string \<Rightarrow> tx_row io" where
  "transaction_create env nm amt cat dt uid = (\<lambda>s.
     if \<not> List.member categoryEnum cat
     then (Inl (Error ''Invalid value for argument category. Expected Category.''), s)
     else
       case amountColumn env amt of
         Inl e \<Rightarrow> (Inl e, s)
       | Inr a \<Rightarrow>
           if \<not> list_ex (\<lambda>u. u_id u = uid) (users s)
           then (Inl (Error ''Foreign key constraint violated: Transaction_userId_fkey''), s)
           else if list_ex (\<lambda>t. tx_id t = freshId env) (transactions s)
           then (Inl (Error ''Unique constraint failed on the fields: (id)''), s)
           else
             let row = \<lparr>tx_id = freshId env, tx_name = nm, tx_amount = a, tx_category = cat,
                        tx_date = dt, tx_createdAt = clock env, tx_updatedAt = clock env,
                        tx_userId = uid\<rparr>
             in (Inr row, s\<lparr>transactions := transactions s @ [row]\<rparr>))"

text \<open>
  \<^verbatim>\<open>prisma.transaction.update\<close> with \<^verbatim>\<open>where: { id, userId }\<close>: the arguments are
  checked as for a new row; no row with that identifier and owner is an exception.
\<close>

definition transaction_update ::
  "env \<Rightarrow> string \<Rightarrow> string \<Rightarrow> string \<Rightarrow> jsnum \<Rightarrow> string \<Rightarrow> int \<Rightarrow> tx_row io" where
  "transaction_update env rid uid nm amt cat dt = (\<lambda>s.
     if \<not> List.member categoryEnum cat
     then (Inl (Error ''Invalid value for argument category. Expected Category.''), s)
     else
       case amountColumn env amt of
         Inl e \<Rightarrow> (Inl e, s)
       | Inr a \<Rightarrow>
           (case find (\<lambda>t. tx_id t = rid \<and> tx_userId t = uid) (transactions s) of
              None \<Rightarrow> (Inl (Error ''Record to update not found.''), s)
            | Some t \<Rightarrow>
                let row = t\<lparr>tx_name := nm, tx_amount := a, tx_category := cat, tx_date := dt,
                            tx_updatedAt := clock env\<rparr>
                in (Inr row,
                    s\<lparr>transactions :=
                        map (\<lambda>x. if tx_id x = rid \<and> tx_userId x = uid then row else x) (transactions s)\<rparr>)))"


text \<open>
  \<^verbatim>\<open>prisma.transaction.findMany\<close> with \<^verbatim>\<open>orderBy: { date: 'desc' }\<close>: the rows that
  satisfy the condition, latest date first (rows of equal date in table order; the
  store does not fix their order).
\<close>

definition transaction_findMany :: "(tx_row \<Rightarrow> bool) \<Rightarrow> tx_row list io" where
  "transaction_findMany cond = (\<lambda>s. (Inr (sort_key (\<lambda>t. - tx_date t) (filter cond (transactions s))), s))"

text \<open>
  \<^verbatim>\<open>prisma.transaction.aggregate\<close> with \<^verbatim>\<open>_sum: { amount: true }\<close>: the exact sum of
  the column over the rows that satisfy the condition, \<^verbatim>\<open>null\<close> when there is none.
\<close>

definition transaction_aggregate_sum :: "(tx_row \<Rightarrow> bool) \<Rightarrow> rat option io" where
  "transaction_aggregate_sum cond = (\<lambda>s.
     (Inr (if filter cond (transactions s) = [] then None
           else Some (sum_list (map tx_amount (filter cond (transactions s))))), s))"

section \<open>The transaction service (\<^verbatim>\<open>src/unnamed/part_000\<close>)\<close>

record TransactionFormData =
  name :: string
  amount :: string
  category :: string
  date :: int

text \<open>A transaction as the client receives it: the amount is a number.\<close>

record Transaction =
  t_id :: string
  t_name :: string
  t_amount :: jsnum
  t_category :: string
  t_date :: int
  t_createdAt :: int
  t_updatedAt :: int
  t_userId :: string

text \<open>
  The result of an action, \<^verbatim>\<open>{ success, error?, ... }\<close>; \<open>payload\<close> is the field
  \<^verbatim>\<open>transaction\<close>, \<^verbatim>\<open>transactions\<close> or \<^verbatim>\<open>total\<close> of the action, \<open>None\<close> where
  the object returned has no such field.
\<close>

record 'a result =
  success :: bool
  error :: "string option"
  payload :: "'a option"

text \<open>\<^verbatim>\<open>Number(transaction.amount)\<close> is the number nearest to the decimal.\<close>

definition serializeTransaction :: "tx_row \<Rightarrow> Transaction" where
  "serializeTransaction transaction =
     \<lparr>t_id = tx_id transaction, t_name = tx_name transaction,
      t_amount = toDouble (tx_amount transaction), t_category = tx_category transaction,
      t_date = tx_date transaction, t_createdAt = tx_createdAt transaction,
      t_updatedAt = tx_updatedAt transaction, t_userId = tx_userId transaction\<rparr>"

text \<open>
  \<^verbatim>\<open>user?.emailAddresses[0]?.emailAddress || ''\<close> and \<^verbatim>\<open>user?.fullName || null\<close>.
\<close>

definition profileEmail :: "clerk_user option \<Rightarrow> string" where
  "profileEmail user = (case user of None \<Rightarrow> [] | Some u \<Rightarrow> (case emailAddresses u of [] \<Rightarrow> [] | e # _ \<Rightarrow> e))"

definition profileName :: "clerk_user option \<Rightarrow> string option" where
  "profileName user =
     (case user of
        None \<Rightarrow> None
      | Some u \<Rightarrow> (case fullName u of None \<Rightarrow> None | Some n \<Rightarrow> if n = [] then None else Some n))"

definition ensureUser :: "env \<Rightarrow> string \<Rightarrow> user_row io" where
  "ensureUser env userId =
     io_try
       (io_bind (io_lift (currentUser env)) (\<lambda>user.
          user_upsert env userId (profileEmail user) (profileName user)))
       (\<lambda>error. io_throw (Error ''Failed to create user record''))"

text \<open>\<^verbatim>\<open>error.message || fallback\<close>.\<close>

definition messageOr :: "exn \<Rightarrow> string \<Rightarrow> string" where
  "messageOr e fallback = (if message e = [] then fallback else message e)"

text \<open>\<^verbatim>\<open>!userId\<close>: no identity, or the empty string.\<close>

definition noUserId :: "string option \<Rightarrow> bool" where
  "noUserId userId = (case userId of None \<Rightarrow> True | Some u \<Rightarrow> u = [])"

definition userIdOf :: "string option \<Rightarrow> string" where
  "userIdOf userId = (case userId of None \<Rightarrow> [] | Some u \<Rightarrow> u)"

definition revalidate :: "env \<Rightarrow> string \<Rightarrow> unit io" where
  "revalidate env path = io_lift (case revalidatePath env path of None \<Rightarrow> Inr () | Some e \<Rightarrow> Inl e)"

definition validCategories :: "string list" where
  "validCategories = [''Food'', ''Groceries'', ''Transportation'', ''Internet'', ''Health'', ''Sport'',
     ''Shopping'', ''Entertainment'', ''BadHabits'', ''Other'']"

definition createTransaction :: "env \<Rightarrow> TransactionFormData \<Rightarrow> Transaction result io" where
  "createTransaction env data =
     io_try
       (io_bind (io_lift (auth env)) (\<lambda>userId.
          if noUserId userId
          then io_ret \<lparr>success = False, error = Some ''Unauthorized: Please sign in'', payload = None\<rparr>
          else
            io_bind (ensureUser env (userIdOf userId)) (\<lambda>_.
              let amt = parseFloat (amount data)
              in if isNaN amt \<or> js_le0 amt
                 then io_ret \<lparr>success = False,
                             error = Some ''Invalid amount: Please enter a valid positive number'',
                             payload = None\<rparr>
                 else if \<not> List.member validCategories (category data)
                 then io_ret \<lparr>success = False, error = Some (''Invalid category: '' @ category data),
                             payload = None\<rparr>
                 else
                   io_bind (transaction_create env (trim (name data)) amt (category data) (date data)
                              (userIdOf userId)) (\<lambda>transaction.
                   io_bind (revalidate env ''/records'') (\<lambda>_.
                   io_ret \<lparr>success = True, error = None,
                           payload = Some (serializeTransaction transaction)\<rparr>)))))
       (\<lambda>error.
          io_ret \<lparr>success = False,
                  error = Some (''Failed to create transaction: '' @ messageOr error ''Unknown error occurred''),
                  payload = None\<rparr>)"

definition updateTransaction :: "env \<Rightarrow> string \<Rightarrow> TransactionFormData \<Rightarrow> Transaction result io" where
  "updateTransaction env rid data =
     io_try
       (io_bind (io_lift (auth env)) (\<lambda>userId.
          if noUserId userId
          then io_ret \<lparr>success = False, error = Some ''Unauthorized'', payload = None\<rparr>
          else
            let amt = parseFloat (amount data)
            in if isNaN amt \<or> js_le0 amt
               then io_ret \<lparr>success = False, error = Some ''Invalid amount'', payload = None\<rparr>
               else
                 io_bind (transaction_update env rid (userIdOf userId) (trim (name data)) amt
                            (category data) (date data)) (\<lambda>transaction.
                 io_bind (revalidate env ''/records'') (\<lambda>_.
                 io_ret \<lparr>success = True, error = None,
                         payload = Some (serializeTransaction transaction)\<rparr>))))
       (\<lambda>error.
          io_ret \<lparr>success = False,
                  error = Some (''Failed to update transaction: '' @ messageOr error ''Unknown error''),
                  payload = None\<rparr>)"


definition getTransactions :: "env \<Rightarrow> Transaction list result io" where
  "getTransactions env =
     io_try
       (io_bind (io_lift (auth env)) (\<lambda>userId.
          if noUserId userId
          then io_ret \<lparr>success = False, error = Some ''Unauthorized'', payload = Some []\<rparr>
          else
            io_bind (ensureUser env (userIdOf userId)) (\<lambda>_.
            io_bind (transaction_findMany (\<lambda>t. tx_userId t = userIdOf userId)) (\<lambda>transactions.
            io_ret \<lparr>success = True, error = None,
                    payload = Some (map serializeTransaction transactions)\<rparr>))))
       (\<lambda>error.
          io_ret \<lparr>success = False,
                  error = Some (''Failed to fetch transactions: '' @ messageOr error ''Unknown error''),
                  payload = Some []\<rparr>)"

text \<open>
  \<^verbatim>\<open>getMonthlyTotal(month?)\<close>: the bounds are \<^verbatim>\<open>new Date(y, m, 1)\<close> and
  \<^verbatim>\<open>new Date(y, m + 1, 0)\<close>; the total is \<^verbatim>\<open>Number\<close> of the sum, 0 when the sum is
  \<^verbatim>\<open>null\<close>.
\<close>

definition getMonthlyTotal :: "env \<Rightarrow> int option \<Rightarrow> jsnum result io" where
  "getMonthlyTotal env month =
     io_try
       (io_bind (io_lift (auth env)) (\<lambda>userId.
          if noUserId userId
          then io_ret \<lparr>success = False, error = Some ''Unauthorized'', payload = Some (Fin 0)\<rparr>
          else
            io_bind (ensureUser env (userIdOf userId)) (\<lambda>_.
              let targetMonth = (case month of None \<Rightarrow> clock env | Some m \<Rightarrow> m);
                  startOfMonth = newDate (getFullYear targetMonth) (getMonth targetMonth) 1;
                  endOfMonth = newDate (getFullYear targetMonth) (getMonth targetMonth + 1) 0
              in io_bind (transaction_aggregate_sum
                            (\<lambda>t. tx_userId t = userIdOf userId \<and> startOfMonth \<le> tx_date t \<and> tx_date t \<le> endOfMonth))
                   (\<lambda>sum_amount.
                      let total = (case sum_amount of None \<Rightarrow> Fin 0 | Some v \<Rightarrow> toDouble v)
                      in io_ret \<lparr>success = True, error = None, payload = Some total\<rparr>))))
       (\<lambda>error.
          io_ret \<lparr>success = False,
                  error = Some (''Failed to fetch monthly total: '' @ messageOr error ''Unknown error''),
                  payload = Some (Fin 0)\<rparr>)"

definition getTransactionsByDateRange :: "env \<Rightarrow> int \<Rightarrow> int \<Rightarrow> Transaction list result io" where
  "getTransactionsByDateRange env startDate endDate =
     io_try
       (io_bind (io_lift (auth env)) (\<lambda>userId.
          if noUserId userId
          then io_ret \<lparr>success = False, error = Some ''Unauthorized'', payload = Some []\<rparr>
          else
            io_bind (ensureUser env (userIdOf userId)) (\<lambda>_.
              let start0 = setHours_0_0_0_0 startDate;
                  end0 = setHours_23_59_59_999 endDate
              in io_bind (transaction_findMany
                            (\<lambda>t. tx_userId t = userIdOf userId \<and> start0 \<le> tx_date t \<and> tx_date t \<le> end0))
                   (\<lambda>transactions.
                      io_ret \<lparr>success = True, error = None,
                              payload = Some (map serializeTransaction transactions)\<rparr>))))
       (\<lambda>error.
          io_ret \<lparr>success = False,
                  error = Some (''Failed to fetch transactions: '' @ messageOr error ''Unknown error''),
                  payload = Some []\<rparr>)"

section \<open>The receipt scanner (\<^verbatim>\<open>src/app/actions/scan-receipt.ts\<close>)\<close>


definition ex_bind :: "exn + 'a \<Rightarrow> ('a \<Rightarrow> exn + 'b) \<Rightarrow> exn + 'b" where
  "ex_bind m f = (case m of Inl e \<Rightarrow> Inl e | Inr x \<Rightarrow> f x)"



















section \<open>The reports page (\<^verbatim>\<open>src/app/(dashboard)/records/page.tsx\<close>)\<close>

subsection \<open>The date library\<close>

text \<open>
  The functions of \<^verbatim>\<open>date-fns\<close> the page calls, by their documented results in local
  time. A week starts on Sunday; 1970-01-01 was a Thursday. An interval whose start is
  after its end is an exception (a \<^verbatim>\<open>RangeError\<close>; later versions of the library
  return the dates in descending order instead, and nothing below depends on it).
\<close>

definition startOfMonth :: "int \<Rightarrow> int" where
  "startOfMonth t = monthStart (monthIndex (dayOf t)) * msPerDay"

definition endOfMonth :: "int \<Rightarrow> int" where
  "endOfMonth t = monthStart (monthIndex (dayOf t) + 1) * msPerDay - 1"

definition startOfYear :: "int \<Rightarrow> int" where
  "startOfYear t = monthStart (12 * getFullYear t) * msPerDay"

definition endOfYear :: "int \<Rightarrow> int" where
  "endOfYear t = monthStart (12 * (getFullYear t + 1)) * msPerDay - 1"

definition addDays :: "int \<Rightarrow> int \<Rightarrow> int" where
  "addDays t n = t + n * msPerDay"

definition addWeeks :: "int \<Rightarrow> int \<Rightarrow> int" where
  "addWeeks t n = addDays t (7 * n)"

text \<open>The same day of the month \<open>n\<close> months on, or the last day of that month when
  it is shorter; the time of day is kept.\<close>

definition addMonths :: "int \<Rightarrow> int \<Rightarrow> int" where
  "addMonths t n =
     (let k = monthIndex (dayOf t) + n;
          dayOfMonth = getDate t;
          daysInMonth = monthStart (k + 1) - monthStart k
      in (monthStart k + min dayOfMonth daysInMonth - 1) * msPerDay + t mod msPerDay)"

definition subMonths :: "int \<Rightarrow> int \<Rightarrow> int" where
  "subMonths t n = addMonths t (- n)"

definition startOfWeekDay :: "int \<Rightarrow> int" where
  "startOfWeekDay d = d - (d + 4) mod 7"

definition eachDayOfInterval :: "int \<Rightarrow> int \<Rightarrow> exn + int list" where
  "eachDayOfInterval s e =
     (if \<not> s \<le> e then Inl (Error ''Invalid interval'')
      else Inr (map (\<lambda>d. d * msPerDay) [dayOf s .. dayOf e]))"

definition eachWeekOfInterval :: "int \<Rightarrow> int \<Rightarrow> exn + int list" where
  "eachWeekOfInterval s e =
     (if \<not> s \<le> e then Inl (Error ''Invalid interval'')
      else Inr (map (\<lambda>i. (startOfWeekDay (dayOf s) + 7 * i) * msPerDay)
                  [0 .. (startOfWeekDay (dayOf e) - startOfWeekDay (dayOf s)) div 7]))"

definition eachMonthOfInterval :: "int \<Rightarrow> int \<Rightarrow> exn + int list" where
  "eachMonthOfInterval s e =
     (if \<not> s \<le> e then Inl (Error ''Invalid interval'')
      else Inr (map (\<lambda>k. monthStart k * msPerDay) [monthIndex (dayOf s) .. monthIndex (dayOf e)]))"

subsection \<open>The page\<close>

datatype TimePeriod = thisMonth | last3Months | thisYear | custom

record TrendPoint =
  tp_date :: string
  tp_amount :: jsnum

text \<open>The date range of the selected period; \<open>now\<close> is \<^verbatim>\<open>new Date()\<close>.\<close>

definition dateRange :: "int \<Rightarrow> TimePeriod \<Rightarrow> int option \<Rightarrow> int option \<Rightarrow> int \<times> int" where
  "dateRange now selectedPeriod customStartDate customEndDate =
     (case selectedPeriod of
        thisMonth \<Rightarrow> (startOfMonth now, endOfMonth now)
      | last3Months \<Rightarrow> (startOfMonth (subMonths now 2), endOfMonth now)
      | thisYear \<Rightarrow> (startOfYear now, endOfYear now)
      | custom \<Rightarrow> ((case customStartDate of None \<Rightarrow> now | Some d \<Rightarrow> d),
                   (case customEndDate of None \<Rightarrow> now | Some d \<Rightarrow> d)))"

text \<open>\<^verbatim>\<open>ts.reduce((sum, t) => sum + t.amount, 0)\<close>.\<close>

definition sumAmounts :: "Transaction list \<Rightarrow> jsnum" where
  "sumAmounts ts = foldl (\<lambda>sum t. jsadd sum (t_amount t)) (Fin 0) ts"

text \<open>The three branches of \<^verbatim>\<open>trendData\<close>: the bucket starts, the end of a bucket,
  and the pattern of its label.\<close>

definition intervalsOf :: "TimePeriod \<Rightarrow> int \<Rightarrow> int \<Rightarrow> exn + int list" where
  "intervalsOf period startDate endDate =
     (if period = thisMonth then eachDayOfInterval startDate endDate
      else if period = last3Months then eachWeekOfInterval startDate endDate
      else eachMonthOfInterval startDate endDate)"

definition intervalEndOf :: "TimePeriod \<Rightarrow> int \<Rightarrow> int" where
  "intervalEndOf period intervalStart =
     (if period = thisMonth then addDays intervalStart 1
      else if period = last3Months then addWeeks intervalStart 1
      else addMonths intervalStart 1)"

definition formatOf :: "TimePeriod \<Rightarrow> string" where
  "formatOf period = (if period = thisMonth \<or> period = last3Months then ''MMM d'' else ''MMM yyyy'')"

text \<open>The transactions of a bucket: \<^verbatim>\<open>tDate >= intervalStart && tDate < intervalEnd\<close>.\<close>

definition bucketOf :: "TimePeriod \<Rightarrow> Transaction list \<Rightarrow> int \<Rightarrow> Transaction list" where
  "bucketOf period ts interval =
     filter (\<lambda>t. interval \<le> t_date t \<and> t_date t < intervalEndOf period interval) ts"

text \<open>\<^verbatim>\<open>trendData\<close>; \<open>format\<close> is the library's date formatter.\<close>

definition trendData ::
  "(int \<Rightarrow> string \<Rightarrow> string) \<Rightarrow> Transaction list \<Rightarrow> TimePeriod \<Rightarrow> int \<Rightarrow> int \<Rightarrow> exn + TrendPoint list" where
  "trendData format ts selectedPeriod startDate endDate =
     (if length ts = 0 then Inr []
      else
        ex_bind (intervalsOf selectedPeriod startDate endDate) (\<lambda>intervals.
          Inr (map (\<lambda>interval.
                      \<lparr>tp_date = format interval (formatOf selectedPeriod),
                       tp_amount = sumAmounts (bucketOf selectedPeriod ts interval)\<rparr>)
                 intervals)))"

definition totalSpending :: "Transaction list \<Rightarrow> jsnum" where
  "totalSpending ts = sumAmounts ts"

text \<open>The real number an amount denotes, for stating what the sums add up (0 for
  NaN and the infinities, which no stored amount is).\<close>

definition realAmount :: "Transaction \<Rightarrow> rat" where
  "realAmount t = (case t_amount t of Fin r \<Rightarrow> r | _ \<Rightarrow> 0)"

section \<open>Sample data\<close>

text \<open>
  A signed-in user, Ann, on 2024-11-15 at noon, with a store that holds her profile
  and one purchase made on 2024-11-30 at noon; a second store with purchases on
  2024-11-03 at 08:30 and at the last millisecond of that day, one at the first
  millisecond of 2024-11-04, and one of another user.
\<close>

definition ann :: clerk_user where
  "ann = \<lparr>emailAddresses = [''ann@example.com''], fullName = Some ''Ann''\<rparr>"

definition env_ann :: env where
  "env_ann = \<lparr>auth = Inr (Some ''user_ann''), currentUser = Inr (Some ann), clock = 1731672000000,
     freshId = ''tx_new'', revalidatePath = (\<lambda>_. None), decimalOfNumber = (\<lambda>r. r)\<rparr>"

definition env_anon :: env where
  "env_anon = \<lparr>auth = Inr None, currentUser = Inr None, clock = 1731672000000,
     freshId = ''tx_new'', revalidatePath = (\<lambda>_. None), decimalOfNumber = (\<lambda>r. r)\<rparr>"

definition ann_row :: user_row where
  "ann_row = \<lparr>u_id = ''user_ann'', u_email = ''ann@example.com'', u_name = Some ''Ann'',
     u_currency = ''USD'', u_createdAt = 1730419200000, u_updatedAt = 1731672000000\<rparr>"

definition bob_row :: user_row where
  "bob_row = \<lparr>u_id = ''user_bob'', u_email = ''bob@example.com'', u_name = None,
     u_currency = ''USD'', u_createdAt = 1730419200000, u_updatedAt = 1730419200000\<rparr>"

definition coffee :: "string \<Rightarrow> string \<Rightarrow> int \<Rightarrow> tx_row" where
  "coffee rid uid d = \<lparr>tx_id = rid, tx_name = ''Coffee'', tx_amount = 10, tx_category = ''Food'',
     tx_date = d, tx_createdAt = d, tx_updatedAt = d, tx_userId = uid\<rparr>"

definition db_nov30 :: db where
  "db_nov30 = \<lparr>users = [ann_row], transactions = [coffee ''tx_1'' ''user_ann'' 1732968000000]\<rparr>"

definition db_nov3 :: db where
  "db_nov3 = \<lparr>users = [ann_row, bob_row],
     transactions = [coffee ''tx_1'' ''user_ann'' 1730622600000, coffee ''tx_2'' ''user_bob'' 1730622600000,
                     coffee ''tx_3'' ''user_ann'' 1730678400000, coffee ''tx_4'' ''user_ann'' 1730678399999]\<rparr>"




text \<open>
  For the reports page: a formatter that labels a bucket with the pattern alone, and
  purchases of Ann's as the page holds them. The three purchases of 0.1, 0.2 and 0.3
  (the numbers \<^verbatim>\<open>Number("0.1")\<close> and so on) are dated 2024-11-15, 2024-10-20 and
  2024-10-05, latest first as the server returns them.
\<close>

definition plainFormat :: "int \<Rightarrow> string \<Rightarrow> string" where
  "plainFormat d pattern = pattern"

definition purchase :: "string \<Rightarrow> int \<Rightarrow> rat \<Rightarrow> Transaction" where
  "purchase rid d a = \<lparr>t_id = rid, t_name = ''Coffee'', t_amount = toDouble a, t_category = ''Food'',
     t_date = d, t_createdAt = d, t_updatedAt = d, t_userId = ''user_ann''\<rparr>"

definition three_purchases :: "Transaction list" where
  "three_purchases = [purchase ''tx_1'' 1731672000000 (1 / 10), purchase ''tx_2'' 1729382400000 (2 / 10),
                      purchase ''tx_3'' 1728086400000 (3 / 10)]"

text \<open>The days of the years before year \<open>y\<close> of the March-based count, used to
  reason about \<^const>\<open>daysFromCivil\<close>.\<close>

definition yearDays :: "int \<Rightarrow> int" where
  "yearDays y = y div 400 * 146097 + (y mod 400 * 365 + y mod 400 div 4 - y mod 400 div 100)"

section \<open>The calendar\<close>

text \<open>A month has 28 to 31 days, so month starts increase, and \<^const>\<open>monthIndex\<close>
  names the one month a day lies in.\<close>

lemma cycle_steps:
  "list_all (\<lambda>r::int. (r + 1) div 4 - (r + 1) div 100 - (r div 4 - r div 100) = 0
                     \<or> (r + 1) div 4 - (r + 1) div 100 - (r div 4 - r div 100) = 1) [0..398]"
  by code_simp

lemma cycle_step:
  assumes "0 \<le> (r::int)" "r < 399"
  shows "(r + 1) div 4 - (r + 1) div 100 - (r div 4 - r div 100) = 0
       \<or> (r + 1) div 4 - (r + 1) div 100 - (r div 4 - r div 100) = 1"
proof -
  have "r \<in> set [0..398]" using assms by simp
  with cycle_steps show ?thesis unfolding list_all_iff by blast
qed

lemma div_mod_int_eq:
  fixes a b q r :: int
  assumes "a = b * q + r" "0 \<le> r" "r < b"
  shows "a div b = q \<and> a mod b = r"
  using assms int_div_pos_eq[of a b q r] int_mod_pos_eq[of a b q r] by simp

lemma yearDays_step:
  "yearDays (y + 1) - yearDays y = 365 \<or> yearDays (y + 1) - yearDays y = 366"
proof (cases "y mod 400 = 399")
  case True
  have "y + 1 = 400 * (y div 400 + 1) + 0" using True mult_div_mod_eq[of 400 y] by simp
  then have "(y + 1) div 400 = y div 400 + 1 \<and> (y + 1) mod 400 = 0"
    by (rule div_mod_int_eq) simp_all
  then show ?thesis using True by (simp add: yearDays_def)
next
  case False
  have r: "0 \<le> y mod 400" "y mod 400 < 399"
    using False pos_mod_bound[of 400 y] by simp_all
  have "y + 1 = 400 * (y div 400) + (y mod 400 + 1)" by simp
  then have "(y + 1) div 400 = y div 400 \<and> (y + 1) mod 400 = y mod 400 + 1"
    using r by (intro div_mod_int_eq) simp_all
  then have "yearDays (y + 1) - yearDays y =
      365 + ((y mod 400 + 1) div 4 - (y mod 400 + 1) div 100 - (y mod 400 div 4 - y mod 400 div 100))"
    by (simp add: yearDays_def)
  with cycle_step[OF r] show ?thesis by (elim disjE) simp_all
qed

lemma daysFromCivil_yearDays:
  "daysFromCivil y m d =
     yearDays (if m \<le> 2 then y - 1 else y) + (153 * (if 2 < m then m - 3 else m + 9) + 2) div 5 + d - 1 - 719468"
  by (simp add: daysFromCivil_def yearDays_def Let_def)

lemma monthStart_split:
  assumes "0 \<le> m" "m < 12"
  shows "monthStart (12 * y + m) = daysFromCivil y (m + 1) 1"
proof -
  have "(12 * y + m) div 12 = y" "(12 * y + m) mod 12 = m" using assms by auto
  then show ?thesis by (simp add: monthStart_def)
qed

lemma monthStart_step_aux:
  assumes "m \<in> set [0..11]"
  shows "28 \<le> monthStart (12 * y + m + 1) - monthStart (12 * y + m)
       \<and> monthStart (12 * y + m + 1) - monthStart (12 * y + m) \<le> 31"
proof (cases "m = 11")
  case True
  have a: "monthStart (12 * y + m + 1) = daysFromCivil (y + 1) 1 1"
    using monthStart_split[of 0 "y + 1"] True by (simp add: algebra_simps)
  have b: "monthStart (12 * y + m) = daysFromCivil y 12 1"
    using monthStart_split[of 11 y] True by simp
  show ?thesis unfolding a b by (simp add: daysFromCivil_yearDays)
next
  case False
  then have m: "0 \<le> m" "m < 11" "0 \<le> m + 1" "m + 1 < 12" using assms by auto
  have a: "monthStart (12 * y + m + 1) = daysFromCivil y (m + 2) 1"
    using monthStart_split[OF m(3,4), of y] by (simp add: algebra_simps)
  have b: "monthStart (12 * y + m) = daysFromCivil y (m + 1) 1"
    using monthStart_split[of m y] m by simp
  show ?thesis
  proof (cases "m = 1")
    case True
    show ?thesis unfolding a b using yearDays_step[of "y - 1"] True by (auto simp add: daysFromCivil_yearDays)
  next
    case False
    have "0 \<le> m" "m \<le> 11" using assms by simp_all
    with False \<open>m \<noteq> 11\<close> have "m = 0 \<or> m = 2 \<or> m = 3 \<or> m = 4 \<or> m = 5 \<or> m = 6 \<or> m = 7 \<or> m = 8 \<or> m = 9 \<or> m = 10"
      by presburger
    then show ?thesis unfolding a b by (auto simp add: daysFromCivil_yearDays)
  qed
qed

lemma monthStart_step:
  "28 \<le> monthStart (k + 1) - monthStart k \<and> monthStart (k + 1) - monthStart k \<le> 31"
proof -
  have k: "k = 12 * (k div 12) + k mod 12" by simp
  have "k mod 12 \<in> set [0..11]" by simp
  from monthStart_step_aux[OF this, of "k div 12"] show ?thesis by simp
qed

lemma monthStart_less: "monthStart k < monthStart (k + 1)"
  using monthStart_step[of k] by linarith

lemma monthStart_bounds:
  "monthStart k + 28 * int n \<le> monthStart (k + int n) \<and> monthStart (k + int n) \<le> monthStart k + 31 * int n"
proof (induction n)
  case 0
  show ?case by simp
next
  case (Suc n)
  have "k + int (Suc n) = (k + int n) + 1" by simp
  with monthStart_step[of "k + int n"] Suc show ?case by (simp add: algebra_simps)
qed

lemma monthStart_mono: "i \<le> j \<Longrightarrow> monthStart i \<le> monthStart j"
  using monthStart_bounds[of i "nat (j - i)"] by simp

lemma monthStart_strict: "i < j \<Longrightarrow> monthStart i < monthStart j"
  using monthStart_mono[of "i + 1" j] monthStart_less[of i] by simp

lemma monthStart_epoch: "monthStart 23640 = 0"
  by (simp add: monthStart_def daysFromCivil_def)

lemma monthSearch_bounds:
  "monthStart k \<le> d \<Longrightarrow> monthStart (monthSearch d k) \<le> d \<and> d < monthStart (monthSearch d k + 1)"
proof (induction d k rule: monthSearch.induct)
  case (1 d k)
  show ?case
  proof (cases "monthStart (k + 1) \<le> d")
    case True
    then have "monthSearch d k = monthSearch d (k + 1)"
      using monthStart_less[of k] by (subst monthSearch.simps) simp
    with "1.IH" True monthStart_less[of k] show ?thesis by simp
  next
    case False
    then have "monthSearch d k = k" by (subst monthSearch.simps) simp
    with False "1.prems" show ?thesis by simp
  qed
qed

lemma monthIndex_bounds:
  "monthStart (monthIndex d) \<le> d \<and> d < monthStart (monthIndex d + 1)"
proof -
  have "monthStart (23640 + (if 0 \<le> d then d div 31 else d div 28)) \<le> d"
  proof (cases "0 \<le> d")
    case True
    have "monthStart (23640 + int (nat (d div 31))) \<le> monthStart 23640 + 31 * int (nat (d div 31))"
      using monthStart_bounds[of 23640 "nat (d div 31)"] by simp
    moreover have "0 \<le> d div 31" using True by simp
    moreover have "31 * (d div 31) \<le> d" using True by (simp add: algebra_simps)
    ultimately show ?thesis using True by (simp add: monthStart_epoch)
  next
    case False
    define n where "n = nat (- (d div 28))"
    have neg: "d div 28 < 0" using False by simp
    then have n: "int n = - (d div 28)" by (simp add: n_def)
    have "monthStart (23640 + d div 28) + 28 * int n \<le> monthStart (23640 + d div 28 + int n)"
      using monthStart_bounds[of "23640 + d div 28" n] by simp
    then have "monthStart (23640 + d div 28) \<le> 28 * (d div 28)"
      by (simp add: n monthStart_epoch)
    moreover have "28 * (d div 28) \<le> d" by (simp add: algebra_simps)
    ultimately show ?thesis using False by simp
  qed
  then show ?thesis unfolding monthIndex_def by (rule monthSearch_bounds)
qed

lemma monthIndex_unique:
  assumes "monthStart k \<le> d" "d < monthStart (k + 1)"
  shows "monthIndex d = k"
proof (rule ccontr)
  assume ne: "monthIndex d \<noteq> k"
  show False
  proof (cases "monthIndex d < k")
    case True
    then have "monthStart (monthIndex d + 1) \<le> monthStart k" by (intro monthStart_mono) simp
    with monthIndex_bounds[of d] assms show False by simp
  next
    case False
    with ne have "k + 1 \<le> monthIndex d" by simp
    then have "monthStart (k + 1) \<le> monthStart (monthIndex d)" by (rule monthStart_mono)
    with monthIndex_bounds[of d] assms show False by simp
  qed
qed

section \<open>The transaction service: what holds for every call\<close>

lemma ensureUser_transactions: "transactions (snd (ensureUser env uid s)) = transactions s"
  by (simp add: ensureUser_def io_try_def io_bind_def io_lift_def io_throw_def user_upsert_def Let_def
           split: sum.splits option.splits prod.splits)




text \<open>
  C10. The read operations carry their payload in every result: the list of
  transactions, empty when the call fails, for \<^const>\<open>getTransactions\<close> and
  \<^const>\<open>getTransactionsByDateRange\<close>; the total, 0 when the call fails, for
  \<^const>\<open>getMonthlyTotal\<close>.
\<close>

theorem read_failures_carry_default_payload:
  "(fst (getTransactions env s) = Inr r1 \<longrightarrow> payload r1 \<noteq> None \<and> (\<not> success r1 \<longrightarrow> payload r1 = Some []))
   \<and> (fst (getTransactionsByDateRange env startDate endDate s) = Inr r2
        \<longrightarrow> payload r2 \<noteq> None \<and> (\<not> success r2 \<longrightarrow> payload r2 = Some []))
   \<and> (fst (getMonthlyTotal env month s) = Inr r3
        \<longrightarrow> payload r3 \<noteq> None \<and> (\<not> success r3 \<longrightarrow> payload r3 = Some (Fin 0)))"
proof (intro conjI impI)
  assume "fst (getTransactions env s) = Inr r1"
  then show "payload r1 \<noteq> None" "\<not> success r1 \<Longrightarrow> payload r1 = Some []"
    by (auto simp add: getTransactions_def io_try_def io_bind_def io_lift_def io_ret_def transaction_findMany_def
          split: sum.splits prod.splits if_splits)
next
  assume "fst (getTransactionsByDateRange env startDate endDate s) = Inr r2"
  then show "payload r2 \<noteq> None" "\<not> success r2 \<Longrightarrow> payload r2 = Some []"
    by (auto simp add: getTransactionsByDateRange_def io_try_def io_bind_def io_lift_def io_ret_def
          transaction_findMany_def Let_def split: sum.splits prod.splits if_splits)
next
  assume "fst (getMonthlyTotal env month s) = Inr r3"
  then show "payload r3 \<noteq> None" "\<not> success r3 \<Longrightarrow> payload r3 = Some (Fin 0)"
    by (auto simp add: getMonthlyTotal_def io_try_def io_bind_def io_lift_def io_ret_def
          transaction_aggregate_sum_def Let_def split: sum.splits prod.splits if_splits)
qed

theorem read_failures_carry_default_payload_witness:
  "fst (getTransactions env_anon db_nov3) = Inr \<lparr>success = False, error = Some ''Unauthorized'', payload = Some []\<rparr>
   \<and> fst (getTransactionsByDateRange env_anon 0 0 db_nov3)
       = Inr \<lparr>success = False, error = Some ''Unauthorized'', payload = Some []\<rparr>
   \<and> fst (getMonthlyTotal env_anon None db_nov3)
       = Inr \<lparr>success = False, error = Some ''Unauthorized'', payload = Some (Fin 0)\<rparr>
   \<and> payload \<lparr>success = False, error = Some ''Unauthorized'', payload = Some ([] :: Transaction list)\<rparr> = Some []
   \<and> payload \<lparr>success = False, error = Some ''Unauthorized'', payload = Some (Fin 0)\<rparr> = Some (Fin 0)"
proof -
  have a: "fst (getTransactions env_anon db_nov3) = Inr \<lparr>success = False, error = Some ''Unauthorized'', payload = Some []\<rparr>"
    by (simp add: getTransactions_def io_try_def io_bind_def io_lift_def io_ret_def env_anon_def noUserId_def)
  have b: "fst (getTransactionsByDateRange env_anon 0 0 db_nov3)
       = Inr \<lparr>success = False, error = Some ''Unauthorized'', payload = Some []\<rparr>"
    by (simp add: getTransactionsByDateRange_def io_try_def io_bind_def io_lift_def io_ret_def env_anon_def noUserId_def)
  have c: "fst (getMonthlyTotal env_anon None db_nov3)
       = Inr \<lparr>success = False, error = Some ''Unauthorized'', payload = Some (Fin 0)\<rparr>"
    by (simp add: getMonthlyTotal_def io_try_def io_bind_def io_lift_def io_ret_def env_anon_def noUserId_def)
  from read_failures_carry_default_payload[of env_anon db_nov3
         "\<lparr>success = False, error = Some ''Unauthorized'', payload = Some []\<rparr>" 0 0
         "\<lparr>success = False, error = Some ''Unauthorized'', payload = Some []\<rparr>" None
         "\<lparr>success = False, error = Some ''Unauthorized'', payload = Some (Fin 0)\<rparr>"] a b c
  show ?thesis by simp
qed

lemma same_day_iff:
  "(dayOf d * msPerDay \<le> x \<and> x \<le> dayOf d * msPerDay + 86399999) \<longleftrightarrow> dayOf x = dayOf d"
proof
  assume a: "dayOf d * msPerDay \<le> x \<and> x \<le> dayOf d * msPerDay + 86399999"
  have "x = msPerDay * dayOf d + (x - dayOf d * msPerDay)" by simp
  then have "x div msPerDay = dayOf d \<and> x mod msPerDay = x - dayOf d * msPerDay"
    using a by (intro div_mod_int_eq) (simp_all add: msPerDay_def)
  then show "dayOf x = dayOf d" by (simp add: dayOf_def)
next
  assume e: "dayOf x = dayOf d"
  have "x = msPerDay * (x div msPerDay) + x mod msPerDay" by simp
  moreover have "0 \<le> x mod msPerDay" "x mod msPerDay < msPerDay" by (simp_all add: msPerDay_def)
  ultimately show "dayOf d * msPerDay \<le> x \<and> x \<le> dayOf d * msPerDay + 86399999"
    using e unfolding dayOf_def msPerDay_def by linarith
qed

lemma getTransactionsByDateRange_signed_in:
  assumes "auth env = Inr (Some uid)" "uid \<noteq> []" "fst (ensureUser env uid s) = Inr u"
  shows "fst (getTransactionsByDateRange env a b s) =
           Inr \<lparr>success = True, error = None,
                payload = Some (map serializeTransaction
                  (sort_key (\<lambda>t. - tx_date t)
                     (filter (\<lambda>t. tx_userId t = uid \<and> setHours_0_0_0_0 a \<le> tx_date t \<and> tx_date t \<le> setHours_23_59_59_999 b)
                        (transactions s))))\<rparr>"
proof -
  obtain s' where e: "ensureUser env uid s = (Inr u, s')"
    using assms(3) by (cases "ensureUser env uid s") simp
  have t: "transactions s' = transactions s"
    using ensureUser_transactions[of env uid s] e by simp
  show ?thesis
    using assms(1,2) e t
    by (simp add: getTransactionsByDateRange_def io_try_def io_bind_def io_lift_def io_ret_def
          transaction_findMany_def noUserId_def userIdOf_def Let_def)
qed

text \<open>
  C7. For a signed-in caller whose user record can be ensured,
  \<^const>\<open>getTransactionsByDateRange\<close> returns the caller's transactions dated from
  00:00:00.000 of the start day to 23:59:59.999 of the end day, both included, latest
  first; with the same date as start and end these are exactly the caller's
  transactions dated on that calendar day, whatever their time of day.
\<close>

theorem getTransactionsByDateRange_whole_days:
  assumes "auth env = Inr (Some uid)" "uid \<noteq> []" "fst (ensureUser env uid s) = Inr u"
  shows "\<exists>found.
           fst (getTransactionsByDateRange env a b s) = Inr \<lparr>success = True, error = None, payload = Some found\<rparr>
         \<and> mset found = mset (map serializeTransaction
              (filter (\<lambda>t. tx_userId t = uid \<and> dayOf a * msPerDay \<le> tx_date t
                           \<and> tx_date t \<le> dayOf b * msPerDay + 86399999) (transactions s)))
         \<and> sorted_wrt (\<lambda>x y. t_date y \<le> t_date x) found
         \<and> (a = b \<longrightarrow> mset found = mset (map serializeTransaction
              (filter (\<lambda>t. tx_userId t = uid \<and> dayOf (tx_date t) = dayOf a) (transactions s))))"
proof -
  let ?rows = "filter (\<lambda>t. tx_userId t = uid \<and> setHours_0_0_0_0 a \<le> tx_date t \<and> tx_date t \<le> setHours_23_59_59_999 b)
                 (transactions s)"
  let ?found = "map serializeTransaction (sort_key (\<lambda>t. - tx_date t) ?rows)"
  have r: "fst (getTransactionsByDateRange env a b s) = Inr \<lparr>success = True, error = None, payload = Some ?found\<rparr>"
    by (rule getTransactionsByDateRange_signed_in[OF assms])
  have m: "mset ?found = mset (map serializeTransaction
              (filter (\<lambda>t. tx_userId t = uid \<and> dayOf a * msPerDay \<le> tx_date t
                           \<and> tx_date t \<le> dayOf b * msPerDay + 86399999) (transactions s)))"
    by (simp add: setHours_0_0_0_0_def setHours_23_59_59_999_def)
  have "sorted (map (\<lambda>t. - tx_date t) (sort_key (\<lambda>t. - tx_date t) ?rows))"
    by (rule sorted_sort_key)
  then have o: "sorted_wrt (\<lambda>x y. t_date y \<le> t_date x) ?found"
    by (simp add: sorted_wrt_map serializeTransaction_def)
  have d: "a = b \<longrightarrow> mset ?found = mset (map serializeTransaction
              (filter (\<lambda>t. tx_userId t = uid \<and> dayOf (tx_date t) = dayOf a) (transactions s)))"
  proof
    assume "a = b"
    then have "filter (\<lambda>t. tx_userId t = uid \<and> dayOf a * msPerDay \<le> tx_date t
                           \<and> tx_date t \<le> dayOf b * msPerDay + 86399999) (transactions s)
             = filter (\<lambda>t. tx_userId t = uid \<and> dayOf (tx_date t) = dayOf a) (transactions s)"
      by (simp add: same_day_iff)
    then show "mset ?found = mset (map serializeTransaction
              (filter (\<lambda>t. tx_userId t = uid \<and> dayOf (tx_date t) = dayOf a) (transactions s)))"
      using m by (simp only:)
  qed
  from r m o d show ?thesis by blast
qed

theorem getTransactionsByDateRange_whole_days_witness:
  "auth env_ann = Inr (Some ''user_ann'') \<and> ''user_ann'' \<noteq> [] \<and> fst (ensureUser env_ann ''user_ann'' db_nov3) = Inr ann_row
   \<and> fst (getTransactionsByDateRange env_ann 1730635200000 1730635200000 db_nov3)
       = Inr \<lparr>success = True, error = None,
              payload = Some (map serializeTransaction
                 [coffee ''tx_4'' ''user_ann'' 1730678399999, coffee ''tx_1'' ''user_ann'' 1730622600000])\<rparr>
   \<and> filter (\<lambda>t. tx_userId t = ''user_ann'' \<and> dayOf (tx_date t) = dayOf 1730635200000) (transactions db_nov3)
       = [coffee ''tx_1'' ''user_ann'' 1730622600000, coffee ''tx_4'' ''user_ann'' 1730678399999]"
proof -
  have a: "auth env_ann = Inr (Some ''user_ann'')" by (simp add: env_ann_def)
  have n: "''user_ann'' \<noteq> []" by simp
  have e: "fst (ensureUser env_ann ''user_ann'' db_nov3) = Inr ann_row" by code_simp
  have f: "filter (\<lambda>t. tx_userId t = ''user_ann'' \<and> dayOf (tx_date t) = dayOf 1730635200000) (transactions db_nov3)
       = [coffee ''tx_1'' ''user_ann'' 1730622600000, coffee ''tx_4'' ''user_ann'' 1730678399999]"
    by code_simp
  have r: "fst (getTransactionsByDateRange env_ann 1730635200000 1730635200000 db_nov3)
       = Inr \<lparr>success = True, error = None,
              payload = Some (map serializeTransaction
                 [coffee ''tx_4'' ''user_ann'' 1730678399999, coffee ''tx_1'' ''user_ann'' 1730622600000])\<rparr>"
    by code_simp
  from getTransactionsByDateRange_whole_days[OF a n e, of 1730635200000 1730635200000] a n e f r
  show ?thesis by simp
qed




section \<open>The receipt scanner: coercion and missing fields\<close>











section \<open>The reports page: the buckets of the trend series\<close>

text \<open>
  Bucket starts that increase, each bucket ending where the next starts, hold every
  date between the first start and the last end in exactly one bucket; so the lists
  of the buckets together are a rearrangement of the list they are taken from.
\<close>

lemma step_mono:
  fixes f :: "int \<Rightarrow> int"
  assumes "\<And>i. f i < f (i + 1)" "i \<le> j"
  shows "f i \<le> f j"
proof -
  have *: "f i \<le> f (i + int n)" for n
  proof (induction n)
    case 0
    show ?case by simp
  next
    case (Suc n)
    have "f (i + int n) < f (i + int n + 1)" by (rule assms(1))
    with Suc show ?case by (simp add: algebra_simps)
  qed
  from *[of "nat (j - i)"] assms(2) show ?thesis by simp
qed

lemma one_bucket_upto:
  fixes f :: "int \<Rightarrow> int"
  assumes step: "\<And>i. f i < f (i + 1)" and lo: "f a \<le> x"
  shows "x < f (a + int n + 1) \<Longrightarrow> length (filter (\<lambda>i. f i \<le> x \<and> x < f (i + 1)) [a .. a + int n]) = 1"
proof (induction n)
  case 0
  then show ?case using lo by simp
next
  case (Suc n)
  have split: "[a .. a + int (Suc n)] = [a .. a + int n] @ [a + int n + 1]"
    using upto_rec2[of a "a + int (Suc n)"] by (simp add: algebra_simps)
  show ?case
  proof (cases "x < f (a + int n + 1)")
    case True
    then have "length (filter (\<lambda>i. f i \<le> x \<and> x < f (i + 1)) [a .. a + int n]) = 1" by (rule Suc.IH)
    with True show ?thesis unfolding split by simp
  next
    case False
    have "\<not> (f i \<le> x \<and> x < f (i + 1))" if "i \<in> set [a .. a + int n]" for i
    proof -
      from that have "i + 1 \<le> a + int n + 1" by simp
      then have "f (i + 1) \<le> f (a + int n + 1)" using step_mono[of f "i + 1" "a + int n + 1"] step by blast
      with False show ?thesis by simp
    qed
    then have "filter (\<lambda>i. f i \<le> x \<and> x < f (i + 1)) [a .. a + int n] = []"
      by (simp add: filter_empty_conv del: upto.simps)
    moreover have "x < f (a + int n + 1 + 1)" using Suc.prems by (simp add: algebra_simps)
    ultimately show ?thesis using False unfolding split by simp
  qed
qed

lemma one_bucket:
  fixes f :: "int \<Rightarrow> int"
  assumes "\<And>i. f i < f (i + 1)" "f a \<le> x" "x < f (b + 1)" "a \<le> b"
  shows "length (filter (\<lambda>i. f i \<le> x \<and> x < f (i + 1)) [a .. b]) = 1"
  using one_bucket_upto[of f a x "nat (b - a)", OF assms(1,2)] assms(3,4) by simp

lemma sum_list_single:
  fixes c :: "'a :: comm_monoid_add"
  shows "length (filter Q xs) = 1 \<Longrightarrow> sum_list (map (\<lambda>i. if Q i then c else 0) xs) = c"
proof (induction xs)
  case Nil
  then show ?case by simp
next
  case (Cons x xs)
  show ?case
  proof (cases "Q x")
    case True
    with Cons.prems have "filter Q xs = []" by simp
    then have "\<forall>y \<in> set xs. \<not> Q y" by (simp add: filter_empty_conv)
    then have "sum_list (map (\<lambda>i. if Q i then c else 0) xs) = 0"
      by (induction xs) simp_all
    with True show ?thesis by simp
  next
    case False
    with Cons show ?thesis by simp
  qed
qed

lemma buckets_partition:
  assumes "\<And>t. t \<in> set ts \<Longrightarrow> length (filter (\<lambda>i. P i t) ivs) = 1"
  shows "sum_list (map (\<lambda>i. mset (filter (P i) ts)) ivs) = mset ts"
  using assms
proof (induction ts)
  case Nil
  show ?case by (induction ivs) simp_all
next
  case (Cons t ts)
  have one: "sum_list (map (\<lambda>i. if P i t then {#t#} else {#}) ivs) = {#t#}"
    using sum_list_single[of "\<lambda>i. P i t" ivs "{#t#}"] Cons.prems[of t] by simp
  have "sum_list (map (\<lambda>i. mset (filter (P i) (t # ts))) ivs)
      = sum_list (map (\<lambda>i. (if P i t then {#t#} else {#}) + mset (filter (P i) ts)) ivs)"
    by (intro arg_cong[where f = sum_list] map_cong) auto
  also have "\<dots> = sum_list (map (\<lambda>i. if P i t then {#t#} else {#}) ivs)
                  + sum_list (map (\<lambda>i. mset (filter (P i) ts)) ivs)"
    by (rule sum_list_addf)
  also have "\<dots> = {#t#} + mset ts"
    using one Cons.IH Cons.prems by simp
  finally show ?case by simp
qed

lemma dayOf_midnight: "dayOf (d * msPerDay) = d" "(d * msPerDay) mod msPerDay = 0"
  by (simp_all add: dayOf_def msPerDay_def)

lemma dayOf_mono: "s \<le> e \<Longrightarrow> dayOf s \<le> dayOf e"
  unfolding dayOf_def msPerDay_def by (rule zdiv_mono1) simp_all

lemma day_bounds: "dayOf t * msPerDay \<le> t" "t < (dayOf t + 1) * msPerDay"
proof -
  have e: "86400000 * (t div 86400000) + t mod 86400000 = t" by (rule mult_div_mod_eq)
  have m: "0 \<le> t mod 86400000" "t mod 86400000 < 86400000" by simp_all
  from e m show "dayOf t * msPerDay \<le> t" unfolding dayOf_def msPerDay_def by linarith
  from e m have "t < 86400000 * (t div 86400000) + 86400000" by linarith
  then show "t < (dayOf t + 1) * msPerDay" by (simp add: dayOf_def msPerDay_def algebra_simps)
qed

lemma end_of_day_before: "d < k \<Longrightarrow> d * msPerDay + 86399999 < k * msPerDay"
proof -
  assume "d < k"
  then have "d + 1 \<le> k" by simp
  then have "(d + 1) * msPerDay \<le> k * msPerDay" by (intro mult_right_mono) (simp_all add: msPerDay_def)
  then show ?thesis by (simp add: algebra_simps msPerDay_def)
qed

lemma monthIndex_monthStart: "monthIndex (monthStart k) = k"
  by (rule monthIndex_unique) (simp_all add: monthStart_less)

lemma monthIndex_mono:
  assumes "d1 \<le> d2"
  shows "monthIndex d1 \<le> monthIndex d2"
proof (rule ccontr)
  assume "\<not> monthIndex d1 \<le> monthIndex d2"
  then have "monthIndex d2 + 1 \<le> monthIndex d1" by simp
  then have "monthStart (monthIndex d2 + 1) \<le> monthStart (monthIndex d1)" by (rule monthStart_mono)
  with monthIndex_bounds[of d1] monthIndex_bounds[of d2] assms show False by simp
qed

lemma addMonths_monthStart: "addMonths (monthStart k * msPerDay) 1 = monthStart (k + 1) * msPerDay"
proof -
  have "28 \<le> monthStart (k + 1 + 1) - monthStart (k + 1)" using monthStart_step[of "k + 1"] by simp
  then have "min 1 (monthStart (k + 1 + 1) - monthStart (k + 1)) = 1" by simp
  then show ?thesis
    by (simp add: addMonths_def getDate_def dayOf_midnight monthIndex_monthStart Let_def)
qed

lemma week_facts:
  "startOfWeekDay d \<le> d" "d < startOfWeekDay d + 7" "(startOfWeekDay d + 4) mod 7 = 0"
proof -
  have "0 \<le> (d + 4) mod 7" "(d + 4) mod 7 < 7" by simp_all
  then show "startOfWeekDay d \<le> d" "d < startOfWeekDay d + 7" by (simp_all add: startOfWeekDay_def)
  have "startOfWeekDay d + 4 = (d + 4) - (d + 4) mod 7" by (simp add: startOfWeekDay_def)
  also have "\<dots> = 7 * ((d + 4) div 7)" by (simp add: minus_mod_eq_mult_div)
  finally show "(startOfWeekDay d + 4) mod 7 = 0" by simp
qed

lemma week_span:
  assumes "d1 \<le> d2"
  shows "0 \<le> (startOfWeekDay d2 - startOfWeekDay d1) div 7"
    and "startOfWeekDay d1 + 7 * ((startOfWeekDay d2 - startOfWeekDay d1) div 7) = startOfWeekDay d2"
proof -
  have a: "(startOfWeekDay d1 + 4) mod 7 = 0" "(startOfWeekDay d2 + 4) mod 7 = 0" by (rule week_facts)+
  have "(startOfWeekDay d2 - startOfWeekDay d1) mod 7 = ((startOfWeekDay d2 + 4) - (startOfWeekDay d1 + 4)) mod 7"
    by simp
  also have "\<dots> = ((startOfWeekDay d2 + 4) mod 7 - (startOfWeekDay d1 + 4) mod 7) mod 7"
    by (rule mod_diff_eq[symmetric])
  finally have m: "(startOfWeekDay d2 - startOfWeekDay d1) mod 7 = 0" using a by simp
  have "7 * ((startOfWeekDay d2 - startOfWeekDay d1) div 7) = startOfWeekDay d2 - startOfWeekDay d1"
    using m by (simp add: mult_div_mod_eq[symmetric] minus_mod_eq_mult_div[symmetric])
  then show "startOfWeekDay d1 + 7 * ((startOfWeekDay d2 - startOfWeekDay d1) div 7) = startOfWeekDay d2"
    by simp
  have "startOfWeekDay d1 \<le> startOfWeekDay d2"
  proof (rule ccontr)
    assume "\<not> startOfWeekDay d1 \<le> startOfWeekDay d2"
    then have lt: "startOfWeekDay d2 < startOfWeekDay d1" by simp
    have "7 * ((startOfWeekDay d2 - startOfWeekDay d1) div 7) = startOfWeekDay d2 - startOfWeekDay d1" by fact
    with lt have "(startOfWeekDay d2 - startOfWeekDay d1) div 7 \<le> - 1" by linarith
    with \<open>7 * ((startOfWeekDay d2 - startOfWeekDay d1) div 7) = startOfWeekDay d2 - startOfWeekDay d1\<close>
    have "startOfWeekDay d2 + 7 \<le> startOfWeekDay d1" by linarith
    with week_facts(1)[of d1] week_facts(2)[of d2] assms show False by linarith
  qed
  then show "0 \<le> (startOfWeekDay d2 - startOfWeekDay d1) div 7" by simp
qed

lemma period_grid:
  assumes "s \<le> e"
  shows "\<exists>f a b. intervalsOf period s e = Inr (map f [a .. b]) \<and> a \<le> b
           \<and> (\<forall>i. f i < f (i + 1)) \<and> (\<forall>i. intervalEndOf period (f i) = f (i + 1))
           \<and> f a \<le> setHours_0_0_0_0 s \<and> setHours_23_59_59_999 e < f (b + 1)"
proof -
  consider "period = thisMonth" | "period = last3Months" | "period = thisYear \<or> period = custom"
    by (cases period) auto
  then show ?thesis
  proof cases
    case 1
    let ?f = "\<lambda>d. d * msPerDay"
    have "intervalsOf period s e = Inr (map ?f [dayOf s .. dayOf e])"
      using 1 assms by (simp add: intervalsOf_def eachDayOfInterval_def)
    moreover have "dayOf s \<le> dayOf e" using assms by (rule dayOf_mono)
    moreover have "\<forall>i. ?f i < ?f (i + 1)" by (simp add: msPerDay_def algebra_simps)
    moreover have "\<forall>i. intervalEndOf period (?f i) = ?f (i + 1)"
      using 1 by (simp add: intervalEndOf_def addDays_def algebra_simps)
    moreover have "?f (dayOf s) \<le> setHours_0_0_0_0 s" by (simp add: setHours_0_0_0_0_def)
    moreover have "setHours_23_59_59_999 e < ?f (dayOf e + 1)"
      unfolding setHours_23_59_59_999_def by (rule end_of_day_before) simp
    ultimately show ?thesis by blast
  next
    case 2
    let ?w = "startOfWeekDay (dayOf s)"
    let ?n = "(startOfWeekDay (dayOf e) - startOfWeekDay (dayOf s)) div 7"
    let ?f = "\<lambda>i. (?w + 7 * i) * msPerDay"
    have d: "dayOf s \<le> dayOf e" using assms by (rule dayOf_mono)
    have "intervalsOf period s e = Inr (map ?f [0 .. ?n])"
      using 2 assms by (simp add: intervalsOf_def eachWeekOfInterval_def)
    moreover have "0 \<le> ?n" using week_span(1)[OF d] .
    moreover have "\<forall>i. ?f i < ?f (i + 1)" by (simp add: msPerDay_def algebra_simps)
    moreover have "\<forall>i. intervalEndOf period (?f i) = ?f (i + 1)"
      using 2 by (simp add: intervalEndOf_def addWeeks_def addDays_def algebra_simps)
    moreover have "?f 0 \<le> setHours_0_0_0_0 s"
      unfolding setHours_0_0_0_0_def using week_facts(1)[of "dayOf s"]
      by (simp add: msPerDay_def)
    moreover have "setHours_23_59_59_999 e < ?f (?n + 1)"
    proof -
      have "?w + 7 * (?n + 1) = startOfWeekDay (dayOf e) + 7" using week_span(2)[OF d] by (simp add: algebra_simps)
      moreover have "dayOf e < startOfWeekDay (dayOf e) + 7" by (rule week_facts)
      ultimately have "dayOf e < ?w + 7 * (?n + 1)" by simp
      then show ?thesis unfolding setHours_23_59_59_999_def by (rule end_of_day_before)
    qed
    ultimately show ?thesis by blast
  next
    case 3
    let ?f = "\<lambda>k. monthStart k * msPerDay"
    have p: "period \<noteq> thisMonth" "period \<noteq> last3Months" using 3 by auto
    have "intervalsOf period s e = Inr (map ?f [monthIndex (dayOf s) .. monthIndex (dayOf e)])"
      using p assms by (simp add: intervalsOf_def eachMonthOfInterval_def)
    moreover have "monthIndex (dayOf s) \<le> monthIndex (dayOf e)"
      using assms by (intro monthIndex_mono dayOf_mono)
    moreover have "\<forall>i. ?f i < ?f (i + 1)"
      using monthStart_less by (simp add: msPerDay_def)
    moreover have "\<forall>i. intervalEndOf period (?f i) = ?f (i + 1)"
      using p by (simp add: intervalEndOf_def addMonths_monthStart)
    moreover have "?f (monthIndex (dayOf s)) \<le> setHours_0_0_0_0 s"
      unfolding setHours_0_0_0_0_def using monthIndex_bounds[of "dayOf s"]
      by (simp add: msPerDay_def)
    moreover have "setHours_23_59_59_999 e < ?f (monthIndex (dayOf e) + 1)"
      unfolding setHours_23_59_59_999_def using monthIndex_bounds[of "dayOf e"]
      by (intro end_of_day_before) simp
    ultimately show ?thesis by blast
  qed
qed

lemma sum_over_buckets:
  "sum_list (map (\<lambda>i. sum_list (map g (F i))) ivs)
     = sum_mset (image_mset g (sum_list (map (\<lambda>i. mset (F i)) ivs)))"
  by (induction ivs) (simp_all add: sum_mset_sum_list[symmetric] del: sum_mset_sum_list)

lemma grid_nth:
  assumes "a \<le> b" "j < length (map f [a .. b])"
  shows "map f [a .. b] ! j = f (a + int j)"
proof -
  have "a + int j \<le> b" using assms by simp
  then show ?thesis using assms by (simp add: nth_upto)
qed
lemma sumAmounts_Nil: "sumAmounts [] = Fin 0"
  by (simp add: sumAmounts_def)

lemma hd_upto_le: "a \<le> b \<Longrightarrow> hd [a .. b] = a"
  by (subst upto_rec1) simp_all

lemma last_upto_le: "a \<le> b \<Longrightarrow> last [a .. b] = b"
  by (subst upto_rec2) simp_all

text \<open>
  C5, as the code has it. The granularity follows the selected period, not the length
  of the window: days for \<open>thisMonth\<close>, weeks from Sunday for \<open>last3Months\<close>, months
  for \<open>thisYear\<close> and for every custom range. With no transaction the series is empty.
  With at least one transaction and a window whose start is not after its end, the
  series has one point for every bucket of the window: the buckets adjoin, the first
  starts no later than the first day of the window and the last ends after its last
  day, and a bucket that holds no transaction reports 0.
\<close>

theorem trendData_axis:
  "trendData format [] period startDate endDate = Inr []
   \<and> intervalsOf thisMonth startDate endDate = eachDayOfInterval startDate endDate
   \<and> intervalEndOf thisMonth i = addDays i 1
   \<and> intervalsOf last3Months startDate endDate = eachWeekOfInterval startDate endDate
   \<and> intervalEndOf last3Months i = addWeeks i 1
   \<and> intervalsOf thisYear startDate endDate = eachMonthOfInterval startDate endDate
   \<and> intervalEndOf thisYear i = addMonths i 1
   \<and> intervalsOf custom startDate endDate = eachMonthOfInterval startDate endDate
   \<and> intervalEndOf custom i = addMonths i 1
   \<and> (ts \<noteq> [] \<and> startDate \<le> endDate \<longrightarrow>
        (\<exists>intervals.
           intervalsOf period startDate endDate = Inr intervals \<and> intervals \<noteq> []
         \<and> trendData format ts period startDate endDate
             = Inr (map (\<lambda>i. \<lparr>tp_date = format i (formatOf period),
                              tp_amount = sumAmounts (bucketOf period ts i)\<rparr>) intervals)
         \<and> hd intervals \<le> setHours_0_0_0_0 startDate
         \<and> setHours_23_59_59_999 endDate < intervalEndOf period (last intervals)
         \<and> (\<forall>j. Suc j < length intervals \<longrightarrow> intervalEndOf period (intervals ! j) = intervals ! Suc j)
         \<and> (\<forall>i \<in> set intervals. bucketOf period ts i = [] \<longrightarrow> sumAmounts (bucketOf period ts i) = Fin 0)))"
proof -
  have grid: "\<exists>intervals.
           intervalsOf period startDate endDate = Inr intervals \<and> intervals \<noteq> []
         \<and> trendData format ts period startDate endDate
             = Inr (map (\<lambda>i. \<lparr>tp_date = format i (formatOf period),
                              tp_amount = sumAmounts (bucketOf period ts i)\<rparr>) intervals)
         \<and> hd intervals \<le> setHours_0_0_0_0 startDate
         \<and> setHours_23_59_59_999 endDate < intervalEndOf period (last intervals)
         \<and> (\<forall>j. Suc j < length intervals \<longrightarrow> intervalEndOf period (intervals ! j) = intervals ! Suc j)
         \<and> (\<forall>i \<in> set intervals. bucketOf period ts i = [] \<longrightarrow> sumAmounts (bucketOf period ts i) = Fin 0)"
    if ne: "ts \<noteq> []" and le: "startDate \<le> endDate"
  proof -
    obtain f a b where g: "intervalsOf period startDate endDate = Inr (map f [a .. b])" "a \<le> b"
        "\<forall>i. f i < f (i + 1)" "\<forall>i. intervalEndOf period (f i) = f (i + 1)"
        "f a \<le> setHours_0_0_0_0 startDate" "setHours_23_59_59_999 endDate < f (b + 1)"
      using period_grid[OF le, of period] by blast
    let ?ivs = "map f [a .. b]"
    have n: "[a .. b] \<noteq> []" using g(2) by simp
    then have n': "?ivs \<noteq> []" by simp
    have h: "hd ?ivs = f a" using n g(2) by (simp add: hd_map hd_upto_le del: upto.simps)
    have l: "last ?ivs = f b" using n g(2) by (simp add: last_map last_upto_le del: upto.simps)
    have adj: "intervalEndOf period (?ivs ! j) = ?ivs ! Suc j" if "Suc j < length ?ivs" for j
    proof -
      have "j < length ?ivs" using that by simp
      then have "?ivs ! j = f (a + int j)" by (rule grid_nth[OF g(2)])
      moreover have "?ivs ! Suc j = f (a + int (Suc j))" using that by (rule grid_nth[OF g(2)])
      ultimately show ?thesis using g(4) by (simp add: algebra_simps)
    qed
    have td: "trendData format ts period startDate endDate
             = Inr (map (\<lambda>i. \<lparr>tp_date = format i (formatOf period),
                              tp_amount = sumAmounts (bucketOf period ts i)\<rparr>) ?ivs)"
      using g(1) ne by (simp add: trendData_def ex_bind_def)
    have z: "\<forall>i \<in> set ?ivs. bucketOf period ts i = [] \<longrightarrow> sumAmounts (bucketOf period ts i) = Fin 0"
      by (simp add: sumAmounts_Nil)
    from g(1) n' td h l adj z g(4,5,6) show ?thesis
      by (intro exI[of _ ?ivs]) (simp del: upto.simps)
  qed
  have e: "trendData format [] period startDate endDate = Inr []" by (simp add: trendData_def)
  have p: "intervalsOf thisMonth startDate endDate = eachDayOfInterval startDate endDate"
      "intervalEndOf thisMonth i = addDays i 1"
      "intervalsOf last3Months startDate endDate = eachWeekOfInterval startDate endDate"
      "intervalEndOf last3Months i = addWeeks i 1"
      "intervalsOf thisYear startDate endDate = eachMonthOfInterval startDate endDate"
      "intervalEndOf thisYear i = addMonths i 1"
      "intervalsOf custom startDate endDate = eachMonthOfInterval startDate endDate"
      "intervalEndOf custom i = addMonths i 1"
    by (simp_all add: intervalsOf_def intervalEndOf_def)
  from e p grid show ?thesis by blast
qed

theorem trendData_axis_witness:
  "three_purchases \<noteq> [] \<and> (1725148800000 :: int) \<le> 1732924800000
   \<and> intervalsOf custom 1725148800000 1732924800000 = Inr [1725148800000, 1727740800000, 1730419200000]
   \<and> trendData plainFormat three_purchases custom 1725148800000 1732924800000
       = Inr (map (\<lambda>i. \<lparr>tp_date = plainFormat i (formatOf custom),
                        tp_amount = sumAmounts (bucketOf custom three_purchases i)\<rparr>)
                [1725148800000, 1727740800000, 1730419200000])
   \<and> intervalEndOf custom 1725148800000 = 1727740800000
   \<and> intervalEndOf custom 1727740800000 = 1730419200000
   \<and> setHours_23_59_59_999 1732924800000 < intervalEndOf custom 1730419200000
   \<and> bucketOf custom three_purchases 1725148800000 = []
   \<and> sumAmounts (bucketOf custom three_purchases 1725148800000) = Fin 0"
proof -
  have n: "three_purchases \<noteq> []" by (simp add: three_purchases_def)
  have l: "(1725148800000 :: int) \<le> 1732924800000" by simp
  have i: "intervalsOf custom 1725148800000 1732924800000 = Inr [1725148800000, 1727740800000, 1730419200000]"
    by code_simp
  have b: "bucketOf custom three_purchases 1725148800000 = []" by code_simp
  from trendData_axis[of plainFormat custom 1725148800000 1732924800000 0 three_purchases] n l
  obtain ivs where iv: "intervalsOf custom 1725148800000 1732924800000 = Inr ivs"
    and t0: "trendData plainFormat three_purchases custom 1725148800000 1732924800000
       = Inr (map (\<lambda>i. \<lparr>tp_date = plainFormat i (formatOf custom),
                        tp_amount = sumAmounts (bucketOf custom three_purchases i)\<rparr>) ivs)"
    and e0: "setHours_23_59_59_999 1732924800000 < intervalEndOf custom (last ivs)"
    and a0: "\<forall>j. Suc j < length ivs \<longrightarrow> intervalEndOf custom (ivs ! j) = ivs ! Suc j"
    and z0: "\<forall>i \<in> set ivs. bucketOf custom three_purchases i = []
               \<longrightarrow> sumAmounts (bucketOf custom three_purchases i) = Fin 0"
    by blast
  from iv i have ivs: "ivs = [1725148800000, 1727740800000, 1730419200000]" by simp
  from t0 have t: "trendData plainFormat three_purchases custom 1725148800000 1732924800000
       = Inr (map (\<lambda>i. \<lparr>tp_date = plainFormat i (formatOf custom),
                        tp_amount = sumAmounts (bucketOf custom three_purchases i)\<rparr>)
                [1725148800000, 1727740800000, 1730419200000])"
    unfolding ivs .
  from e0 have e: "setHours_23_59_59_999 1732924800000 < intervalEndOf custom 1730419200000"
    unfolding ivs by simp
  from a0 have a: "\<forall>j. Suc j < length [1725148800000, 1727740800000, 1730419200000 :: int]
            \<longrightarrow> intervalEndOf custom ([1725148800000, 1727740800000, 1730419200000] ! j)
                = [1725148800000, 1727740800000, 1730419200000] ! Suc j"
    unfolding ivs .
  from z0 have z: "\<forall>i \<in> set [1725148800000, 1727740800000, 1730419200000 :: int].
              bucketOf custom three_purchases i = [] \<longrightarrow> sumAmounts (bucketOf custom three_purchases i) = Fin 0"
    unfolding ivs .
  from a[rule_format, of 0] a[rule_format, of 1]
  have a': "intervalEndOf custom 1725148800000 = 1727740800000" "intervalEndOf custom 1727740800000 = 1730419200000"
    by simp_all
  from z b have z': "sumAmounts (bucketOf custom three_purchases 1725148800000) = Fin 0" by simp
  from n l i t e a' b z' show ?thesis by simp
qed

text \<open>
  C6, as the code has it. For transactions dated within the window (from the first
  millisecond of the start day to the last of the end day, start not after end), each
  transaction lies in exactly one bucket, the half-open interval from the bucket start
  to the start plus the granularity; the transactions of the buckets together are the
  transactions of the list, and the real amounts of the buckets add up to the real
  total. The sums the page computes are floating-point sums of these same amounts, in
  another order.
\<close>

theorem trendData_buckets_partition:
  assumes "startDate \<le> endDate"
    and "\<forall>t \<in> set ts. setHours_0_0_0_0 startDate \<le> t_date t \<and> t_date t \<le> setHours_23_59_59_999 endDate"
  shows "\<exists>intervals.
           intervalsOf period startDate endDate = Inr intervals
         \<and> trendData format ts period startDate endDate
             = Inr (if ts = [] then []
                    else map (\<lambda>i. \<lparr>tp_date = format i (formatOf period),
                                   tp_amount = sumAmounts (bucketOf period ts i)\<rparr>) intervals)
         \<and> (\<forall>t \<in> set ts. length (filter (\<lambda>i. i \<le> t_date t \<and> t_date t < intervalEndOf period i) intervals) = 1)
         \<and> sum_list (map (\<lambda>i. mset (bucketOf period ts i)) intervals) = mset ts
         \<and> sum_list (map (\<lambda>i. sum_list (map realAmount (bucketOf period ts i))) intervals)
             = sum_list (map realAmount ts)"
proof -
  obtain f a b where g: "intervalsOf period startDate endDate = Inr (map f [a .. b])" "a \<le> b"
      "\<forall>i. f i < f (i + 1)" "\<forall>i. intervalEndOf period (f i) = f (i + 1)"
      "f a \<le> setHours_0_0_0_0 startDate" "setHours_23_59_59_999 endDate < f (b + 1)"
    using period_grid[OF assms(1), of period] by blast
  let ?ivs = "map f [a .. b]"
  have one: "length (filter (\<lambda>i. i \<le> t_date t \<and> t_date t < intervalEndOf period i) ?ivs) = 1"
    if "t \<in> set ts" for t
  proof -
    have "f a \<le> t_date t" "t_date t < f (b + 1)" using that assms(2) g(5,6) by force+
    then have "length (filter (\<lambda>i. f i \<le> t_date t \<and> t_date t < f (i + 1)) [a .. b]) = 1"
      using one_bucket[of f a "t_date t" b] g(2,3) by blast
    moreover have "filter (\<lambda>i. i \<le> t_date t \<and> t_date t < intervalEndOf period i) ?ivs
        = map f (filter (\<lambda>i. f i \<le> t_date t \<and> t_date t < f (i + 1)) [a .. b])"
      using g(4) by (simp add: filter_map comp_def del: upto.simps)
    ultimately show ?thesis by simp
  qed
  have part: "sum_list (map (\<lambda>i. mset (bucketOf period ts i)) ?ivs) = mset ts"
    unfolding bucketOf_def
    by (rule buckets_partition[of ts "\<lambda>i t. i \<le> t_date t \<and> t_date t < intervalEndOf period i" ?ivs]) (rule one)
  have sums: "sum_list (map (\<lambda>i. sum_list (map realAmount (bucketOf period ts i))) ?ivs)
             = sum_list (map realAmount ts)"
    unfolding sum_over_buckets part by (simp add: sum_mset_sum_list[symmetric] del: sum_mset_sum_list)
  have td: "trendData format ts period startDate endDate
             = Inr (if ts = [] then []
                    else map (\<lambda>i. \<lparr>tp_date = format i (formatOf period),
                                   tp_amount = sumAmounts (bucketOf period ts i)\<rparr>) ?ivs)"
    using g(1) by (simp add: trendData_def ex_bind_def)
  from g(1) td one part sums show ?thesis by blast
qed

theorem trendData_buckets_partition_witness:
  "(1727740800000 :: int) \<le> 1732924800000
   \<and> setHours_0_0_0_0 1727740800000 = 1727740800000
   \<and> setHours_23_59_59_999 1732924800000 = 1733011199999
   \<and> map t_date three_purchases = [1731672000000, 1729382400000, 1728086400000]
   \<and> intervalsOf custom 1727740800000 1732924800000 = Inr [1727740800000, 1730419200000]
   \<and> sum_list (map (\<lambda>i. mset (bucketOf custom three_purchases i)) [1727740800000, 1730419200000])
       = mset three_purchases
   \<and> sum_list (map (\<lambda>i. sum_list (map realAmount (bucketOf custom three_purchases i)))
                  [1727740800000, 1730419200000])
       = sum_list (map realAmount three_purchases)"
proof -
  have h1: "(1727740800000 :: int) \<le> 1732924800000" by simp
  have h2: "\<forall>t \<in> set three_purchases.
         setHours_0_0_0_0 1727740800000 \<le> t_date t \<and> t_date t \<le> setHours_23_59_59_999 1732924800000"
    by (simp add: three_purchases_def purchase_def setHours_0_0_0_0_def setHours_23_59_59_999_def
          dayOf_def msPerDay_def)
  have i: "intervalsOf custom 1727740800000 1732924800000 = Inr [1727740800000, 1730419200000]"
    by code_simp
  have b: "setHours_0_0_0_0 1727740800000 = 1727740800000"
      "setHours_23_59_59_999 1732924800000 = 1733011199999"
      "map t_date three_purchases = [1731672000000, 1729382400000, 1728086400000]"
    by (simp_all add: three_purchases_def purchase_def setHours_0_0_0_0_def setHours_23_59_59_999_def
          dayOf_def msPerDay_def)
  from trendData_buckets_partition[OF h1 h2, of custom plainFormat] i h1 b
  show ?thesis by auto
qed

section \<open>The transaction service: what the code does\<close>

text \<open>
  C1. The claim: update validates as create does, so a category outside the ten
  values makes \<^const>\<open>updateTransaction\<close> fail with a validation error and change no
  row. Evaluated for Ann's row \<open>tx_1\<close> and the category \<open>Foo\<close>:
  \<^const>\<open>createTransaction\<close> answers with its validation error \<open>Invalid category: Foo\<close>,
  while \<^const>\<open>updateTransaction\<close>, which has no category check, hands the value to the
  store; only the enumeration type of the column refuses it, and the caller gets the
  error of an internal failure. No row changes in either case.
\<close>

theorem updateTransaction_no_category_check:
  "createTransaction env_ann \<lparr>name = ''Coffee'', amount = ''5'', category = ''Foo'', date = 1731672000000\<rparr> db_nov30
     = (Inr \<lparr>success = False, error = Some ''Invalid category: Foo'', payload = None\<rparr>, db_nov30)
   \<and> updateTransaction env_ann ''tx_1'' \<lparr>name = ''Coffee'', amount = ''5'', category = ''Foo'', date = 1731672000000\<rparr> db_nov30
     = (Inr \<lparr>success = False,
             error = Some ''Failed to update transaction: Invalid value for argument category. Expected Category.'',
             payload = None\<rparr>, db_nov30)"
  by code_simp

text \<open>
  C2. The claim: the monthly total sums over the window from the first through the
  last calendar day of the month. Evaluated for November 2024 with Ann's one purchase
  of 10 made on 2024-11-30 at noon: the upper bound \<^verbatim>\<open>new Date(y, m + 1, 0)\<close> is the
  midnight that starts the last day, the purchase lies after it, and the total is 0.
\<close>

theorem getMonthlyTotal_leaves_out_last_day:
  "fst (getMonthlyTotal env_ann (Some 1731672000000) db_nov30)
     = Inr \<lparr>success = True, error = None, payload = Some (Fin 0)\<rparr>
   \<and> map tx_userId (transactions db_nov30) = [''user_ann'']
   \<and> map (\<lambda>t. (getFullYear (tx_date t), getMonth (tx_date t), getDate (tx_date t))) (transactions db_nov30)
       = [(2024, 10, 30)]
   \<and> (getFullYear 1731672000000, getMonth 1731672000000) = (2024, 10)
   \<and> newDate 2024 (10 + 1) 0 = 1732924800000
   \<and> map tx_date (transactions db_nov30) = [1732924800000 + 12 * 3600000]"
  by code_simp

text \<open>
  C4. The claim: \<^const>\<open>createTransaction\<close> rejects a name that is empty after trimming.
  Evaluated for a name of three blanks: the action succeeds and the row is stored with
  the empty name.
\<close>

theorem createTransaction_stores_empty_name:
  "createTransaction env_ann \<lparr>name = ''   '', amount = ''5'', category = ''Food'', date = 1731672000000\<rparr> db_nov30
     = (Inr \<lparr>success = True, error = None,
             payload = Some \<lparr>t_id = ''tx_new'', t_name = [], t_amount = Fin 5, t_category = ''Food'',
                             t_date = 1731672000000, t_createdAt = 1731672000000,
                             t_updatedAt = 1731672000000, t_userId = ''user_ann''\<rparr>\<rparr>,
        \<lparr>users = [ann_row],
         transactions = [coffee ''tx_1'' ''user_ann'' 1732968000000,
                         \<lparr>tx_id = ''tx_new'', tx_name = [], tx_amount = 5, tx_category = ''Food'',
                          tx_date = 1731672000000, tx_createdAt = 1731672000000,
                          tx_updatedAt = 1731672000000, tx_userId = ''user_ann''\<rparr>]\<rparr>)"
  by code_simp


section \<open>The reports page: what the code does\<close>

text \<open>
  C5, the claim as stated: the granularity is chosen from the window, daily for a
  window of a single month, and no bucket of the window is dropped. Evaluated for the
  custom range from 2024-11-01 to 2024-11-30 with one purchase: the window lies in one
  month and has 30 days, and the series is the one monthly bucket. Evaluated for
  \<open>thisMonth\<close> of November 2024 with no transaction: the window has 30 daily buckets
  and the series is empty.
\<close>

theorem trendData_granularity_counterexample:
  "dateRange 1731672000000 custom (Some 1730419200000) (Some 1732924800000) = (1730419200000, 1732924800000)
   \<and> dateRange 1731672000000 thisMonth None None = (1730419200000, 1733011199999)
   \<and> (getFullYear 1730419200000, getMonth 1730419200000, getDate 1730419200000) = (2024, 10, 1)
   \<and> (getFullYear 1732924800000, getMonth 1732924800000, getDate 1732924800000) = (2024, 10, 30)
   \<and> map_sum message length (eachDayOfInterval 1730419200000 1732924800000) = Inr 30
   \<and> trendData plainFormat [purchase ''tx_1'' 1731672000000 5] custom 1730419200000 1732924800000
       = Inr [\<lparr>tp_date = ''MMM yyyy'', tp_amount = Fin 5\<rparr>]
   \<and> map_sum message length (intervalsOf thisMonth 1730419200000 1733011199999) = Inr 30
   \<and> trendData plainFormat [] thisMonth 1730419200000 1733011199999 = Inr []"
  by code_simp

text \<open>
  C6, the claim as stated: the bucket sums add up to the total of the window.
  Evaluated for the custom range from 2024-10-01 to 2024-11-30 with the purchases of
  0.1 in November and of 0.2 and 0.3 in October: the buckets hold 0.2 + 0.3 = 0.5 and
  0.1, which add up to the number written 0.6, while the total (0.1 + 0.2) + 0.3 is
  the next number above it, written 0.6000000000000001.
\<close>

theorem trendData_sums_counterexample:
  "map t_date three_purchases = [1731672000000, 1729382400000, 1728086400000]
   \<and> map t_amount three_purchases
       = [Fin (3602879701896397 / 36028797018963968), Fin (3602879701896397 / 18014398509481984),
          Fin (5404319552844595 / 18014398509481984)]
   \<and> trendData plainFormat three_purchases custom 1727740800000 1732924800000
       = Inr [\<lparr>tp_date = ''MMM yyyy'', tp_amount = Fin (1 / 2)\<rparr>,
              \<lparr>tp_date = ''MMM yyyy'', tp_amount = Fin (3602879701896397 / 36028797018963968)\<rparr>]
   \<and> foldl jsadd (Fin 0) [Fin (1 / 2), Fin (3602879701896397 / 36028797018963968)]
       = Fin (5404319552844595 / 9007199254740992)
   \<and> totalSpending three_purchases = Fin (1351079888211149 / 2251799813685248)
   \<and> Fin (5404319552844595 / 9007199254740992) \<noteq> Fin (1351079888211149 / 2251799813685248)"
  by code_simp

end
